theory Spec2Isabelle
  imports Complex_Main "HOL-Library.Sublist" "HOL-Library.AList"
begin

section \<open>Python strings\<close>

text \<open>
  A Python \<open>str\<close> is modelled as a \<open>string\<close>. The texts the pipeline reads are taken
  to be ASCII, so one \<open>char\<close> is one code point and \<open>s[:n]\<close> is \<open>take n s\<close>.
  A cell of a table is a \<open>string option\<close>: \<open>None\<close> is pandas' missing value (NaN, for
  which \<open>pd.notna\<close> is false), \<open>Some s\<close> a present cell whose \<open>str()\<close> is \<open>s\<close>.
\<close>

type_synonym cell = "string option"

definition is_upper :: "char \<Rightarrow> bool" where
  "is_upper c = (let n = (of_char c :: nat) in 65 \<le> n \<and> n \<le> 90)"

definition is_alpha :: "char \<Rightarrow> bool" where
  \<comment> \<open>the regex class \<open>[a-zA-Z]\<close>\<close>
  "is_alpha c = (let n = (of_char c :: nat) in (65 \<le> n \<and> n \<le> 90) \<or> (97 \<le> n \<and> n \<le> 122))"

definition is_digit :: "char \<Rightarrow> bool" where
  "is_digit c = (let n = (of_char c :: nat) in 48 \<le> n \<and> n \<le> 57)"

definition is_space :: "char \<Rightarrow> bool" where
  \<comment> \<open>\<open>str.isspace\<close> and the regex class \<open>\s\<close> on ASCII: TAB, LF, VT, FF, CR, FS, GS, RS, US, SPACE\<close>
  "is_space c = (let n = (of_char c :: nat) in (9 \<le> n \<and> n \<le> 13) \<or> (28 \<le> n \<and> n \<le> 32))"

definition lower_char :: "char \<Rightarrow> char" where
  "lower_char c = (if is_upper c then char_of ((of_char c :: nat) + 32) else c)"

definition lower :: "string \<Rightarrow> string" where
  \<comment> \<open>\<open>s.lower()\<close>\<close>
  "lower s = map lower_char s"

fun contains :: "string \<Rightarrow> string \<Rightarrow> bool" where
  \<comment> \<open>\<open>contains s kw\<close> is Python's \<open>kw in s\<close>\<close>
  "contains [] kw = (kw = [])"
| "contains (c # cs) kw = (prefix kw (c # cs) \<or> contains cs kw)"

definition strip :: "string \<Rightarrow> string" where
  \<comment> \<open>\<open>s.strip()\<close>\<close>
  "strip s = rev (dropWhile is_space (rev (dropWhile is_space s)))"

fun split_from :: "string \<Rightarrow> string \<Rightarrow> string list" where
  \<comment> \<open>the scan of \<open>s.split()\<close>: the first argument is the token being read\<close>
  "split_from cur [] = (if cur = [] then [] else [cur])"
| "split_from cur (c # cs) =
     (if is_space c then (if cur = [] then split_from [] cs else cur # split_from [] cs)
      else split_from (cur @ [c]) cs)"

definition split :: "string \<Rightarrow> string list" where
  \<comment> \<open>\<open>s.split()\<close>: the maximal runs of non-whitespace characters\<close>
  "split s = split_from [] s"

function str_replace :: "string \<Rightarrow> string \<Rightarrow> string \<Rightarrow> string" where
  \<comment> \<open>\<open>s.replace(old, new)\<close> for a non-empty \<open>old\<close> (every call of the pipeline passes a
      non-empty literal): the occurrences are replaced from the left, without overlap\<close>
  "str_replace [] old new = []"
| "str_replace (c # cs) old new =
     (if old \<noteq> [] \<and> prefix old (c # cs)
      then new @ str_replace (drop (length old) (c # cs)) old new
      else c # str_replace cs old new)"
  by pat_completeness auto
termination
  by (relation "measure (\<lambda>(s, old, new). length s)") (auto simp: neq_Nil_conv)

subsection \<open>Formatting and parsing numbers\<close>

definition digit_char :: "nat \<Rightarrow> char" where
  "digit_char d = char_of (48 + d)"

function str_nat :: "nat \<Rightarrow> string" where
  \<comment> \<open>\<open>str(n)\<close> for an integer \<open>n \<ge> 0\<close>\<close>
  "str_nat n = (if n < 10 then [digit_char n] else str_nat (n div 10) @ [digit_char (n mod 10)])"
  by pat_completeness auto
termination
  by (relation "measure (\<lambda>n. n)") auto

declare str_nat.simps [simp del]

definition fmt_05d :: "nat \<Rightarrow> string" where
  \<comment> \<open>the format \<open>{index:05d}\<close> for an integer \<open>index \<ge> 0\<close>: zeros on the left up to width 5\<close>
  "fmt_05d index = (let s = str_nat index in replicate (5 - length s) CHR ''0'' @ s)"

text \<open>
  \<open>float(s)\<close> on a string: the result is \<open>None\<close> where Python raises \<open>ValueError\<close>.
  The accepted strings are those of the language reference: the surrounding C whitespace
  (TAB, LF, VT, FF, CR, SPACE, and no other character of an ASCII string) is dropped,
  underscores may stand between two digits, then an optional sign and either
  \<open>inf\<close>, \<open>infinity\<close>, \<open>nan\<close> (in any case) or a decimal numeral with an optional
  fraction and exponent. The numeral is rounded to the nearest double, ties to even:
  from \<open>2^1024 - 2^970\<close> on, half way between the largest double and \<open>2^1024\<close>,
  the result is an infinity. \<open>Finite q\<close> stands for the double nearest to the rational
  \<open>q\<close> that the numeral denotes; the rounding of a finite value, and the sign of a zero,
  are not modelled.
\<close>

datatype pyfloat = Finite rat | Infinity bool | NaN

fun underscores_ok :: "char \<Rightarrow> string \<Rightarrow> bool" where
  \<comment> \<open>the first argument is the previous character\<close>
  "underscores_ok prev [] = (prev \<noteq> CHR ''_'')"
| "underscores_ok prev (c # cs) =
     ((if c = CHR ''_'' then is_digit prev
       else if prev = CHR ''_'' then is_digit c else True)
      \<and> underscores_ok c cs)"

definition digits_value :: "string \<Rightarrow> nat" where
  "digits_value ds = foldl (\<lambda>a c. 10 * a + ((of_char c :: nat) - 48)) 0 ds"

definition split_sign :: "string \<Rightarrow> bool \<times> string" where
  \<comment> \<open>an optional sign: (is it negative, the rest)\<close>
  "split_sign s =
     (case s of [] \<Rightarrow> (False, [])
      | c # cs \<Rightarrow> if c = CHR ''-'' then (True, cs) else if c = CHR ''+'' then (False, cs)
                else (False, s))"

definition scale10 :: "rat \<Rightarrow> int \<Rightarrow> rat" where
  "scale10 m e = (if 0 \<le> e then m * 10 ^ nat e else m / 10 ^ nat (- e))"

definition parse_decimal :: "string \<Rightarrow> (nat \<times> int) option" where
  \<comment> \<open>an unsigned decimal numeral: digits, an optional point and digits (one digit at
      least in all), an optional exponent; the result \<open>(m, e)\<close> stands for \<open>m * 10^e\<close>\<close>
  "parse_decimal s =
     (let ip = takeWhile is_digit s; r1 = dropWhile is_digit s;
          has_point = (r1 \<noteq> [] \<and> hd r1 = CHR ''.'');
          fp = (if has_point then takeWhile is_digit (tl r1) else []);
          r2 = (if has_point then dropWhile is_digit (tl r1) else r1);
          m = digits_value (ip @ fp)
      in if ip = [] \<and> fp = [] then None
         else if r2 = [] then Some (m, - int (length fp))
         else if hd r2 = CHR ''e'' \<or> hd r2 = CHR ''E'' then
           (let (eneg, ds) = split_sign (tl r2)
            in if ds \<noteq> [] \<and> list_all is_digit ds
               then Some (m, (if eneg then - int (digits_value ds)
                              else int (digits_value ds)) - int (length fp))
               else None)
         else None)"

definition c_isspace :: "char \<Rightarrow> bool" where
  \<comment> \<open>C's \<open>isspace\<close> in the C locale: TAB, LF, VT, FF, CR, SPACE\<close>
  "c_isspace c = (let n = (of_char c :: nat) in (9 \<le> n \<and> n \<le> 13) \<or> n = 32)"

definition float_overflow :: int where
  \<comment> \<open>\<open>2^1024 - 2^970\<close>: the least value that rounds to an infinity\<close>
  "float_overflow =
     179769313486231580793728971405303415079934132710037826936173778980444968292764750946649017977587207096330286416692887910946555547851940402630657488671505820681908902000708383676273854845817711531764475730270069855571366959622842914819860834936475292719074168444365510704342711559699508093042880177904174497792"

definition overflows :: "nat \<Rightarrow> int \<Rightarrow> bool" where
  \<comment> \<open>\<open>float_overflow \<le> m * 10^e\<close>, in integers\<close>
  "overflows m e =
     (if 0 \<le> e then float_overflow \<le> int m * 10 ^ nat e
      else 10 ^ nat (- e) * float_overflow \<le> int m)"

definition py_float :: "string \<Rightarrow> pyfloat option" where
  "py_float s =
     (let t = rev (dropWhile c_isspace (rev (dropWhile c_isspace s))) in
      if \<not> underscores_ok (CHR 0x00) t then None
      else
        (let (neg, body) = split_sign (filter (\<lambda>c. c \<noteq> CHR ''_'') t); word = lower body
         in if word = ''inf'' \<or> word = ''infinity'' then Some (Infinity neg)
            else if word = ''nan'' then Some NaN
            else (case parse_decimal body of None \<Rightarrow> None
                  | Some (m, e) \<Rightarrow>
                      Some (if overflows m e then Infinity neg
                            else Finite (scale10 (of_int (if neg then - int m else int m)) e)))))"

subsection \<open>Regular expressions\<close>

text \<open>
  The fragment of Python's \<open>re\<close> that the pipeline uses: a greedy \<open>[class]+\<close>,
  concatenation, and a greedy optional group \<open>(?:r)?\<close>. \<open>rests r s\<close> lists what is
  left of \<open>s\<close> after each way \<open>r\<close> can match a prefix of \<open>s\<close>, in the order in
  which the backtracking matcher tries them (greedy: the longest repetition first, the
  optional group taken before it is skipped). \<open>re.match\<close> returns the first of them.
\<close>

datatype regex = Plus "char \<Rightarrow> bool" | Seq regex regex | Opt regex

fun rests :: "regex \<Rightarrow> string \<Rightarrow> string list" where
  "rests (Plus p) [] = []"
| "rests (Plus p) (c # cs) = (if p c then rests (Plus p) cs @ [cs] else [])"
| "rests (Seq a b) s = concat (map (rests b) (rests a s))"
| "rests (Opt a) s = rests a s @ [s]"

definition re_match :: "regex \<Rightarrow> string \<Rightarrow> string option" where
  \<comment> \<open>the text matched by \<open>re.match(r, s)\<close>, \<open>None\<close> when there is no match\<close>
  "re_match r s =
     (case rests r s of [] \<Rightarrow> None | rest # _ \<Rightarrow> Some (take (length s - length rest) s))"

section \<open>The categorization engine (mappers.py)\<close>

text \<open>
  Every classifier runs the same loop over an ordered table of (keywords, label) pairs:
  \<^verbatim>\<open>
  for keywords, category in categories:
      if any(kw in desc_lower for kw in keywords):
          return category
  return "Other"
  \<close>
\<close>

definition any_kw :: "string list \<Rightarrow> string \<Rightarrow> bool" where
  \<comment> \<open>\<open>any(kw in desc_lower for kw in keywords)\<close>\<close>
  "any_kw keywords desc_lower = list_ex (contains desc_lower) keywords"

fun first_label :: "(string list \<times> string) list \<Rightarrow> string \<Rightarrow> string \<Rightarrow> string" where
  "first_label [] dflt desc_lower = dflt"
| "first_label ((keywords, category) # rest) dflt desc_lower =
     (if any_kw keywords desc_lower then category else first_label rest dflt desc_lower)"

definition categories :: "(string list \<times> string) list" where
  "categories =
   [([''hypertension'', ''heart'', ''cardiac'', ''coronary'', ''atrial'', ''angina'',
      ''cardiomyopathy'', ''aortic'', ''arrhythmia''], ''Cardiovascular''),
    ([''diabetes'', ''thyroid'', ''metabolic'', ''obesity'', ''hyperlipidemia'', ''cholesterol'',
      ''insulin''], ''Endocrine''),
    ([''asthma'', ''copd'', ''bronchitis'', ''pneumonia'', ''respiratory'', ''lung'',
      ''pulmonary''], ''Respiratory''),
    ([''cancer'', ''carcinoma'', ''tumor'', ''neoplasm'', ''malignant'', ''lymphoma'',
      ''leukemia'', ''melanoma''], ''Oncology''),
    ([''depression'', ''anxiety'', ''bipolar'', ''schizophrenia'', ''mental'', ''psychiatric'',
      ''stress'', ''panic'', ''ptsd''], ''Mental Health''),
    ([''arthritis'', ''osteo'', ''fracture'', ''back pain'', ''joint'', ''musculoskeletal'',
      ''sprain'', ''strain''], ''Musculoskeletal''),
    ([''kidney'', ''renal'', ''urinary'', ''bladder'', ''cystitis'', ''nephro''],
      ''Genitourinary''),
    ([''gastritis'', ''reflux'', ''gerd'', ''liver'', ''hepatitis'', ''bowel'', ''colitis'',
      ''digestive'', ''intestin''], ''Digestive''),
    ([''stroke'', ''alzheimer'', ''dementia'', ''parkinson'', ''epilepsy'', ''seizure'',
      ''neuropathy'', ''migraine'', ''cerebr''], ''Nervous System''),
    ([''infection'', ''sepsis'', ''bacterial'', ''viral'', ''hiv'', ''tuberculosis'',
      ''pneumonia''], ''Infectious''),
    ([''anemia'', ''blood'', ''coagulation'', ''platelet'', ''hemophilia'', ''thrombocyt''],
      ''Blood/Immune''),
    ([''pregnancy'', ''prenatal'', ''childbirth'', ''miscarriage'', ''gestation'', ''fetal''],
      ''Pregnancy''),
    ([''dermatitis'', ''eczema'', ''psoriasis'', ''skin'', ''acne'', ''rash'', ''wound''],
      ''Skin''),
    ([''employment'', ''education'', ''housing'', ''social'', ''finding'', ''situation''],
      ''Social/Administrative'')]"

definition categorize_condition :: "string \<Rightarrow> string" where
  "categorize_condition description = first_label categories ''Other'' (lower description)"

definition drug_classes :: "(string list \<times> string) list" where
  "drug_classes =
   [([''lisinopril'', ''enalapril'', ''ramipril'', ''captopril'', ''benazepril''],
      ''ACE Inhibitor''),
    ([''losartan'', ''valsartan'', ''irbesartan'', ''olmesartan'', ''candesartan''], ''ARB''),
    ([''metoprolol'', ''atenolol'', ''carvedilol'', ''propranolol'', ''bisoprolol''],
      ''Beta Blocker''),
    ([''amlodipine'', ''nifedipine'', ''diltiazem'', ''verapamil''],
      ''Calcium Channel Blocker''),
    ([''hydrochlorothiazide'', ''furosemide'', ''spironolactone'', ''chlorthalidone'',
      ''bumetanide''], ''Diuretic''),
    ([''atorvastatin'', ''simvastatin'', ''rosuvastatin'', ''pravastatin'', ''lovastatin''],
      ''Statin''),
    ([''metformin'', ''glipizide'', ''glyburide'', ''pioglitazone'', ''sitagliptin'',
      ''empagliflozin''], ''Antidiabetic''),
    ([''insulin''], ''Insulin''),
    ([''warfarin'', ''apixaban'', ''rivaroxaban'', ''dabigatran'', ''heparin'', ''enoxaparin''],
      ''Anticoagulant''),
    ([''aspirin'', ''clopidogrel'', ''ticagrelor'', ''prasugrel''], ''Antiplatelet''),
    ([''omeprazole'', ''pantoprazole'', ''esomeprazole'', ''lansoprazole'', ''rabeprazole''],
      ''Proton Pump Inhibitor''),
    ([''sertraline'', ''fluoxetine'', ''escitalopram'', ''citalopram'', ''paroxetine''],
      ''SSRI Antidepressant''),
    ([''gabapentin'', ''pregabalin'', ''topiramate'', ''levetiracetam'', ''carbamazepine'',
      ''phenytoin'', ''valproic''], ''Anticonvulsant''),
    ([''albuterol'', ''salbutamol'', ''ipratropium'', ''tiotropium'', ''budesonide'',
      ''fluticasone''], ''Respiratory''),
    ([''penicillin'', ''amoxicillin'', ''azithromycin'', ''ciprofloxacin'', ''levofloxacin'',
      ''doxycycline'', ''cephalexin''], ''Antibiotic''),
    ([''acetaminophen'', ''ibuprofen'', ''naproxen'', ''diclofenac'', ''meloxicam'',
      ''celecoxib''], ''Analgesic/NSAID''),
    ([''oxycodone'', ''hydrocodone'', ''morphine'', ''fentanyl'', ''tramadol'', ''codeine''],
      ''Opioid''),
    ([''levothyroxine'', ''synthroid''], ''Thyroid Hormone''),
    ([''prednisone'', ''methylprednisolone'', ''dexamethasone'', ''hydrocortisone''],
      ''Corticosteroid''),
    ([''contraceptive'', ''levonorgestrel'', ''ethinyl estradiol'', ''norethindrone''],
      ''Contraceptive'')]"

definition categorize_drug :: "string \<Rightarrow> string" where
  "categorize_drug description = first_label drug_classes ''Other'' (lower description)"

definition lab_categories :: "(string list \<times> string) list" where
  "lab_categories =
   [([''glucose'', ''hemoglobin a1c'', ''hba1c''], ''Glucose/Diabetes''),
    ([''cholesterol'', ''ldl'', ''hdl'', ''triglyceride'', ''lipid''], ''Lipid Panel''),
    ([''creatinine'', ''bun'', ''egfr'', ''urea''], ''Kidney Function''),
    ([''alt'', ''ast'', ''bilirubin'', ''alkaline phosphatase'', ''liver'', ''albumin''],
      ''Liver Function''),
    ([''hemoglobin'', ''hematocrit'', ''wbc'', ''rbc'', ''platelet'', ''mcv'', ''mch'',
      ''leukocyte'', ''erythrocyte''], ''Hematology''),
    ([''sodium'', ''potassium'', ''chloride'', ''bicarbonate'', ''calcium'', ''magnesium'',
      ''phosph''], ''Electrolytes''),
    ([''tsh'', ''t3'', ''t4'', ''thyroid''], ''Thyroid''),
    ([''troponin'', ''bnp'', ''prothrombin'', ''inr'', ''ptt''], ''Cardiac/Coagulation''),
    ([''urine'', ''urinalysis''], ''Urinalysis''),
    ([''ige'', ''allerg''], ''Allergy''),
    ([''blood pressure'', ''heart rate'', ''respiratory rate'', ''temperature'', ''oxygen'',
      ''bmi'', ''weight'', ''height'', ''pain''], ''Vital Signs''),
    ([''psa'', ''cancer'', ''tumor'', ''cea'', ''ca-125'', ''afp''], ''Tumor Markers'')]"

definition categorize_lab :: "string \<Rightarrow> string" where
  "categorize_lab description = first_label lab_categories ''Other'' (lower description)"

definition generic_name_re :: regex where
  \<comment> \<open>the pattern \<^verbatim>\<open>^([a-zA-Z]+(?:\s+[a-zA-Z]+)?)\<close>; its group 1 is the whole match\<close>
  "generic_name_re = Seq (Plus is_alpha) (Opt (Seq (Plus is_space) (Plus is_alpha)))"

definition extract_generic_name :: "string \<Rightarrow> string" where
  "extract_generic_name description =
     (case re_match generic_name_re description of
        Some group1 \<Rightarrow> lower group1
      | None \<Rightarrow> (case split description of [] \<Rightarrow> ''unknown'' | part # _ \<Rightarrow> lower part))"


section \<open>Tables and rows\<close>

text \<open>
  A \<open>DataFrame\<close> is the list of its rows in file order; \<open>iterrows\<close> pairs each row with
  its index label, which for a frame just read from a file is its position from 0.
  \<open>EmptyFrame\<close> is \<open>pd.DataFrame()\<close>, the frame with no column and no row that
  \<open>load_synthea_csv\<close> returns for a missing file: selecting a column of it raises
  \<open>KeyError\<close>. The identifier columns (\<open>Id\<close>, \<open>PATIENT\<close>, \<open>CODE\<close>) are present
  texts, \<open>DESCRIPTION\<close> holds \<open>str(row["DESCRIPTION"])\<close>, the other columns are cells.
  One row type serves the three event files (conditions, medications, observations);
  each function reads the columns its reader selects with \<open>usecols\<close>.
  The fields \<open>Id'\<close> and \<open>TYPE'\<close> are the columns \<open>Id\<close> and \<open>TYPE\<close>, and
  \<open>zip'\<close> is the key \<open>zip\<close> of a Subject: the plain names are taken in HOL.
\<close>

datatype error = KeyError string | ValueError string

datatype 'r dataframe = EmptyFrame | Frame "'r list"

definition rows_of :: "'r dataframe \<Rightarrow> 'r list" where
  "rows_of df = (case df of EmptyFrame \<Rightarrow> [] | Frame rows \<Rightarrow> rows)"

definition df_empty :: "'r dataframe \<Rightarrow> bool" where
  \<comment> \<open>\<open>df.empty\<close>\<close>
  "df_empty df = (rows_of df = [])"

definition head :: "'r list \<Rightarrow> int \<Rightarrow> 'r list" where
  \<comment> \<open>\<open>df.head(n)\<close>: the first \<open>n\<close> rows, and for a negative \<open>n\<close> all rows but the last \<open>-n\<close>\<close>
  "head rows n = (if 0 \<le> n then take (nat n) rows else take (length rows - nat (- n)) rows)"

definition iterrows :: "'r list \<Rightarrow> (nat \<times> 'r) list" where
  "iterrows rows = zip [0..<length rows] rows"

fun drop_duplicates_seen :: "('r \<Rightarrow> 'k) \<Rightarrow> 'k list \<Rightarrow> 'r list \<Rightarrow> 'r list" where
  "drop_duplicates_seen key seen [] = []"
| "drop_duplicates_seen key seen (row # rows) =
     (if key row \<in> set seen then drop_duplicates_seen key seen rows
      else row # drop_duplicates_seen key (key row # seen) rows)"

definition drop_duplicates :: "('r \<Rightarrow> 'k) \<Rightarrow> 'r list \<Rightarrow> 'r list" where
  \<comment> \<open>\<open>df.drop_duplicates(subset=[key])\<close>, which keeps the first row of each key\<close>
  "drop_duplicates key rows = drop_duplicates_seen key [] rows"

function chunks_of :: "nat \<Rightarrow> 'r list \<Rightarrow> 'r list list" where
  "chunks_of k rows =
     (if k = 0 \<or> rows = [] then [] else take k rows # chunks_of k (drop k rows))"
  by pat_completeness auto
termination
  by (relation "measure (\<lambda>(k, rows). length rows)") auto

declare chunks_of.simps [simp del]

definition read_csv_chunks :: "'r list \<Rightarrow> int \<Rightarrow> error + 'r list list" where
  \<comment> \<open>\<open>pd.read_csv(filepath, chunksize=chunk_size)\<close>: pandas refuses a chunk size below
      1; the first read always gives a chunk, which is empty for a file without data
      rows, and the reads after it give the consecutive chunks of \<open>chunk_size\<close> rows while
      rows remain\<close>
  "read_csv_chunks rows chunk_size =
     (if chunk_size < 1 then Inl (ValueError ''chunksize'')
      else Inr (take (nat chunk_size) rows
                # chunks_of (nat chunk_size) (drop (nat chunk_size) rows)))"

record patient_row =
  Id' :: string
  BIRTHDATE :: cell
  GENDER :: cell
  RACE :: cell
  ETHNICITY :: cell
  MARITAL :: cell
  CITY :: cell
  STATE :: cell
  ZIP :: cell
  DEATHDATE :: cell

record event_row =
  PATIENT :: string
  CODE :: string
  DESCRIPTION :: string
  START :: cell
  STOP :: cell
  DATE :: cell
  VALUE :: cell
  UNITS :: cell
  TYPE' :: cell

section \<open>The mappers (mappers.py)\<close>

record patient =
  synthetic_id :: string
  birth_date :: cell
  sex :: string
  race :: string
  ethnicity :: string
  marital_status :: cell
  city :: cell
  state :: cell
  zip' :: cell
  deceased :: bool
  deceased_date :: cell

definition race_map :: "(string \<times> string) list" where
  "race_map =
   [(''white'', ''White''), (''black'', ''Black''), (''asian'', ''Asian''),
    (''native'', ''Native American''), (''hawaiian'', ''Pacific Islander''),
    (''other'', ''Other'')]"

definition normalize_race :: "cell \<Rightarrow> string" where
  "normalize_race race_cell =
     (case race_cell of None \<Rightarrow> ''Unknown''
      | Some r \<Rightarrow>
          (case find (\<lambda>(key, val). contains (lower r) key) race_map of
             Some (key, val) \<Rightarrow> val
           | None \<Rightarrow> ''Unknown''))"

definition normalize_ethnicity :: "cell \<Rightarrow> string" where
  "normalize_ethnicity ethnicity_cell =
     (case ethnicity_cell of None \<Rightarrow> ''Unknown''
      | Some e \<Rightarrow>
          (let ethnicity_lower = str_replace (lower e) '' '' '''' in
           if contains ethnicity_lower ''hispanic'' \<and> \<not> contains ethnicity_lower ''non''
           then ''Hispanic''
           else if contains ethnicity_lower ''nonhispanic'' then ''Not Hispanic''
           else ''Unknown''))"

definition map_patient :: "patient_row \<Rightarrow> nat \<Rightarrow> patient" where
  "map_patient row index =
     \<lparr>synthetic_id = ''SYN-'' @ fmt_05d index,
      birth_date = BIRTHDATE row,
      sex = (if GENDER row = Some ''M'' then ''male'' else ''female''),
      race = normalize_race (RACE row),
      ethnicity = normalize_ethnicity (ETHNICITY row),
      marital_status = MARITAL row,
      city = CITY row,
      state = STATE row,
      zip' = ZIP row,
      deceased = (DEATHDATE row \<noteq> None),
      deceased_date = DEATHDATE row\<rparr>"

definition py_round2 :: "rat \<Rightarrow> rat" where
  \<comment> \<open>\<open>round(x, 2)\<close>, as a rational\<close>
  "py_round2 x = of_int (round (x * 100)) / 100"

definition estimate_prevalence :: "(string \<Rightarrow> int) \<Rightarrow> string \<Rightarrow> rat" where
  \<comment> \<open>The first argument is the built-in \<open>hash\<close> on strings of the running process:
      the interpreter salts it with a key drawn at start-up, so it is a parameter of
      the model. \<open>%\<close> with a positive modulus is the non-negative remainder.\<close>
  "estimate_prevalence hash code =
     (let hash_val = hash code mod 30 in py_round2 (1 / 100 + of_int hash_val / 100))"

record condition_code =
  code :: string
  name :: string
  snomedCode :: string
  category :: string
  prevalence :: rat

definition clean_suffixes :: "string list" where
  "clean_suffixes = ['' (disorder)'', '' (finding)'', '' (situation)'', '' (procedure)'']"

definition map_condition_code :: "(string \<Rightarrow> int) \<Rightarrow> event_row \<Rightarrow> condition_code" where
  "map_condition_code hash row =
     (let description = DESCRIPTION row;
          clean_name = foldl (\<lambda>clean_name suffix. str_replace clean_name suffix '''')
                         description clean_suffixes
      in \<lparr>code = CODE row,
          name = take 200 (strip clean_name),
          snomedCode = CODE row,
          category = categorize_condition description,
          prevalence = estimate_prevalence hash (CODE row)\<rparr>)"

record medication_code =
  code :: string
  name :: string
  genericName :: string
  drugClass :: string
  rxnorm :: string

definition map_medication_code :: "event_row \<Rightarrow> medication_code" where
  "map_medication_code row =
     (let description = DESCRIPTION row
      in \<lparr>code = CODE row,
          name = take 150 description,
          genericName = extract_generic_name description,
          drugClass = categorize_drug description,
          rxnorm = CODE row\<rparr>)"

record normal_range =
  normalLow :: rat
  normalHigh :: rat
  criticalLow :: "rat option"
  criticalHigh :: "rat option"

definition ranges :: "((string \<times> string) \<times> normal_range) list" where
  "ranges =
   [((''glucose'', ''mg''), \<lparr>normalLow = 70, normalHigh = 100,
        criticalLow = Some 50, criticalHigh = Some 400\<rparr>),
    ((''hemoglobin a1c'', ''''), \<lparr>normalLow = 4, normalHigh = 56 / 10,
        criticalLow = None, criticalHigh = None\<rparr>),
    ((''creatinine'', ''mg''), \<lparr>normalLow = 7 / 10, normalHigh = 13 / 10,
        criticalLow = None, criticalHigh = None\<rparr>),
    ((''cholesterol'', ''mg''), \<lparr>normalLow = 0, normalHigh = 200,
        criticalLow = None, criticalHigh = None\<rparr>),
    ((''ldl'', ''mg''), \<lparr>normalLow = 0, normalHigh = 100,
        criticalLow = None, criticalHigh = None\<rparr>),
    ((''hdl'', ''mg''), \<lparr>normalLow = 40, normalHigh = 60,
        criticalLow = None, criticalHigh = None\<rparr>),
    ((''triglyceride'', ''mg''), \<lparr>normalLow = 0, normalHigh = 150,
        criticalLow = None, criticalHigh = None\<rparr>),
    ((''hemoglobin'', ''g/dl''), \<lparr>normalLow = 12, normalHigh = 175 / 10,
        criticalLow = None, criticalHigh = None\<rparr>),
    ((''platelet'', ''''), \<lparr>normalLow = 150000, normalHigh = 400000,
        criticalLow = None, criticalHigh = None\<rparr>),
    ((''sodium'', ''mmol''), \<lparr>normalLow = 136, normalHigh = 145,
        criticalLow = None, criticalHigh = None\<rparr>),
    ((''potassium'', ''mmol''), \<lparr>normalLow = 35 / 10, normalHigh = 5,
        criticalLow = Some (25 / 10), criticalHigh = Some (65 / 10)\<rparr>)]"

definition get_normal_range :: "string \<Rightarrow> string \<Rightarrow> normal_range option" where
  "get_normal_range description unit_text =
     (let desc_lower = lower description; unit_lower = lower unit_text
      in map_option snd
           (find (\<lambda>((keyword, unit_hint), vals).
                    contains desc_lower keyword
                    \<and> (unit_hint = [] \<or> contains unit_lower unit_hint)) ranges))"

record lab_code =
  code :: string
  name :: string
  loincCode :: string
  category :: string
  unit :: string
  reference :: "normal_range option"

definition map_lab_code :: "event_row \<Rightarrow> lab_code" where
  \<comment> \<open>\<open>reference\<close> holds the keys that \<open>lab.update(ranges)\<close> adds, when a range is found\<close>
  "map_lab_code row =
     (let description = DESCRIPTION row;
          unit_text = (case UNITS row of Some u \<Rightarrow> u | None \<Rightarrow> '''')
      in \<lparr>code = CODE row,
          name = take 150 description,
          loincCode = CODE row,
          category = categorize_lab description,
          unit = take 20 unit_text,
          reference = get_normal_range description unit_text\<rparr>)"

record patient_condition =
  patient_synthetic_id :: string
  condition_code :: string
  onset_date :: cell
  resolution_date :: cell

definition map_patient_condition :: "string \<Rightarrow> event_row \<Rightarrow> patient_condition" where
  "map_patient_condition synthetic row =
     \<lparr>patient_synthetic_id = synthetic, condition_code = CODE row,
      onset_date = START row, resolution_date = STOP row\<rparr>"

record patient_medication =
  patient_synthetic_id :: string
  medication_code :: string
  start_date :: cell
  end_date :: cell

definition map_patient_medication :: "string \<Rightarrow> event_row \<Rightarrow> patient_medication" where
  "map_patient_medication synthetic row =
     \<lparr>patient_synthetic_id = synthetic, medication_code = CODE row,
      start_date = START row, end_date = STOP row\<rparr>"

record patient_lab =
  patient_synthetic_id :: string
  lab_code :: string
  result_date :: cell
  value_numeric :: "pyfloat option"
  value_text :: "string option"
  unit :: cell

definition map_patient_lab :: "string \<Rightarrow> event_row \<Rightarrow> patient_lab" where
  \<comment> \<open>the \<open>try\<close> sets both fields when \<open>float(value)\<close> returns; the \<open>except\<close> branch,
      taken when it raises, sets the text alone\<close>
  "map_patient_lab synthetic row =
     (let val = VALUE row;
          (numeric, text) =
            (case val of
               None \<Rightarrow> (None, None)
             | Some v \<Rightarrow>
                 (case py_float v of
                    Some x \<Rightarrow> (Some x, Some (take 100 v))
                  | None \<Rightarrow> (None, Some (take 100 v))))
      in \<lparr>patient_synthetic_id = synthetic, lab_code = CODE row, result_date = DATE row,
          value_numeric = numeric, value_text = text,
          unit = map_option (take 20) (UNITS row)\<rparr>)"

section \<open>The pipeline (transform.py)\<close>

text \<open>
  A Python \<open>dict\<close> is an association list in insertion order: \<open>d[k] = v\<close> is
  \<open>AList.update k v d\<close> (the value of a key already there is replaced in place, a new
  key goes to the end), \<open>d[k]\<close> and \<open>k in d\<close> are \<open>map_of d k\<close>, \<open>len(d)\<close> is
  \<open>length d\<close>, \<open>d.keys()\<close> and \<open>d.values()\<close> are \<open>map fst d\<close> and \<open>map snd d\<close>.
\<close>

fun transform_loop ::
  "(nat \<times> patient_row) list \<Rightarrow> patient list \<Rightarrow> (string \<times> string) list
   \<Rightarrow> patient list \<times> (string \<times> string) list" where
  "transform_loop [] patients id_mapping = (patients, id_mapping)"
| "transform_loop ((idx, row) # rest) patients id_mapping =
     (let p = map_patient row (idx + 1);
          synthea_id = Id' row
      in transform_loop rest (patients @ [p])
           (AList.update synthea_id (synthetic_id p) id_mapping))"

definition transform_patients ::
  "patient_row dataframe \<Rightarrow> int \<Rightarrow> patient list \<times> (string \<times> string) list" where
  "transform_patients df limit = transform_loop (iterrows (head (rows_of df) limit)) [] []"

definition extract_condition_codes ::
  "(string \<Rightarrow> int) \<Rightarrow> event_row dataframe \<Rightarrow> string set \<Rightarrow> error + condition_code list" where
  \<comment> \<open>\<open>df["PATIENT"]\<close> raises \<open>KeyError\<close> on the frame without columns\<close>
  "extract_condition_codes hash df patient_synthea_ids =
     (case df of
        EmptyFrame \<Rightarrow> Inl (KeyError ''PATIENT'')
      | Frame rows \<Rightarrow>
          (let filtered = filter (\<lambda>row. PATIENT row \<in> patient_synthea_ids) rows;
               unique_codes = drop_duplicates CODE filtered
           in Inr (map (map_condition_code hash) unique_codes)))"

definition extract_medication_codes ::
  "event_row dataframe \<Rightarrow> string set \<Rightarrow> error + medication_code list" where
  "extract_medication_codes df patient_synthea_ids =
     (case df of
        EmptyFrame \<Rightarrow> Inl (KeyError ''PATIENT'')
      | Frame rows \<Rightarrow>
          (let filtered = filter (\<lambda>row. PATIENT row \<in> patient_synthea_ids) rows;
               unique_codes = drop_duplicates CODE filtered
           in Inr (map map_medication_code unique_codes)))"

fun lab_codes_rows :: "event_row list \<Rightarrow> (string \<times> lab_code) list \<Rightarrow> (string \<times> lab_code) list" where
  "lab_codes_rows [] unique_labs = unique_labs"
| "lab_codes_rows (row # rows) unique_labs =
     (if map_of unique_labs (CODE row) = None
      then lab_codes_rows rows (AList.update (CODE row) (map_lab_code row) unique_labs)
      else lab_codes_rows rows unique_labs)"

fun lab_codes_chunks ::
  "event_row list list \<Rightarrow> string set \<Rightarrow> (string \<times> lab_code) list \<Rightarrow> (string \<times> lab_code) list" where
  "lab_codes_chunks [] patient_synthea_ids unique_labs = unique_labs"
| "lab_codes_chunks (chunk # chunks) patient_synthea_ids unique_labs =
     (let filtered = filter (\<lambda>row. PATIENT row \<in> patient_synthea_ids) chunk
      in lab_codes_chunks chunks patient_synthea_ids
           (lab_codes_rows (drop_duplicates CODE filtered) unique_labs))"

definition extract_lab_codes ::
  "event_row list option \<Rightarrow> string set \<Rightarrow> int \<Rightarrow> error + lab_code list" where
  \<comment> \<open>the first argument is the content of observations.csv, \<open>None\<close> when the file does
      not exist\<close>
  "extract_lab_codes observations patient_synthea_ids chunk_size =
     (case observations of
        None \<Rightarrow> Inr []
      | Some rows \<Rightarrow>
          (case read_csv_chunks rows chunk_size of
             Inl e \<Rightarrow> Inl e
           | Inr chunks \<Rightarrow> Inr (map snd (lab_codes_chunks chunks patient_synthea_ids []))))"

fun conditions_loop ::
  "event_row list \<Rightarrow> (string \<times> string) list \<Rightarrow> patient_condition list \<Rightarrow> patient_condition list" where
  "conditions_loop [] id_mapping rels = rels"
| "conditions_loop (row # rows) id_mapping rels =
     (case map_of id_mapping (PATIENT row) of
        None \<Rightarrow> conditions_loop rows id_mapping rels
      | Some synthetic \<Rightarrow>
          conditions_loop rows id_mapping (rels @ [map_patient_condition synthetic row]))"

definition build_patient_conditions ::
  "event_row dataframe \<Rightarrow> (string \<times> string) list \<Rightarrow> patient_condition list" where
  "build_patient_conditions df id_mapping = conditions_loop (rows_of df) id_mapping []"

fun medications_loop ::
  "event_row list \<Rightarrow> (string \<times> string) list \<Rightarrow> patient_medication list
   \<Rightarrow> patient_medication list" where
  "medications_loop [] id_mapping rels = rels"
| "medications_loop (row # rows) id_mapping rels =
     (case map_of id_mapping (PATIENT row) of
        None \<Rightarrow> medications_loop rows id_mapping rels
      | Some synthetic \<Rightarrow>
          medications_loop rows id_mapping (rels @ [map_patient_medication synthetic row]))"

definition build_patient_medications ::
  "event_row dataframe \<Rightarrow> (string \<times> string) list \<Rightarrow> patient_medication list" where
  "build_patient_medications df id_mapping = medications_loop (rows_of df) id_mapping []"

text \<open>
  \<open>build_patient_labs\<close> pulls chunks from the reader one at a time. The run records,
  beside the list being built, how many chunks the \<open>for\<close> statement has taken from the
  reader: it takes the next chunk before the body tests the cap.
\<close>

record labs_run =
  relationships :: "patient_lab list"
  chunks_read :: nat

fun labs_rows_loop ::
  "event_row list \<Rightarrow> (string \<times> string) list \<Rightarrow> int \<Rightarrow> patient_lab list \<Rightarrow> patient_lab list" where
  "labs_rows_loop [] id_mapping max_records rels = rels"
| "labs_rows_loop (row # rows) id_mapping max_records rels =
     (if int (length rels) \<ge> max_records then rels
      else case map_of id_mapping (PATIENT row) of
             None \<Rightarrow> labs_rows_loop rows id_mapping max_records rels
           | Some synthetic \<Rightarrow>
               labs_rows_loop rows id_mapping max_records (rels @ [map_patient_lab synthetic row]))"

fun labs_chunks_loop ::
  "event_row list list \<Rightarrow> (string \<times> string) list \<Rightarrow> int \<Rightarrow> labs_run \<Rightarrow> labs_run" where
  "labs_chunks_loop [] id_mapping max_records run = run"
| "labs_chunks_loop (chunk # chunks) id_mapping max_records run =
     (let fetched = run\<lparr>chunks_read := chunks_read run + 1\<rparr>
      in if int (length (relationships fetched)) \<ge> max_records then fetched
         else labs_chunks_loop chunks id_mapping max_records
                (fetched\<lparr>relationships :=
                   labs_rows_loop chunk id_mapping max_records (relationships fetched)\<rparr>))"

definition build_patient_labs_run ::
  "event_row list option \<Rightarrow> (string \<times> string) list \<Rightarrow> int \<Rightarrow> int \<Rightarrow> error + labs_run" where
  "build_patient_labs_run observations id_mapping max_records chunk_size =
     (case observations of
        None \<Rightarrow> Inr \<lparr>relationships = [], chunks_read = 0\<rparr>
      | Some rows \<Rightarrow>
          (case read_csv_chunks rows chunk_size of
             Inl e \<Rightarrow> Inl e
           | Inr chunks \<Rightarrow>
               Inr (labs_chunks_loop chunks id_mapping max_records
                      \<lparr>relationships = [], chunks_read = 0\<rparr>)))"

definition build_patient_labs ::
  "event_row list option \<Rightarrow> (string \<times> string) list \<Rightarrow> int \<Rightarrow> int \<Rightarrow> error + patient_lab list" where
  \<comment> \<open>what the function returns: the list of the run\<close>
  "build_patient_labs observations id_mapping max_records chunk_size =
     (case build_patient_labs_run observations id_mapping max_records chunk_size of
        Inl e \<Rightarrow> Inl e
      | Inr run \<Rightarrow> Inr (relationships run))"

subsection \<open>The orchestrator\<close>

text \<open>
  The input directory is \<open>None\<close> when it does not exist, and otherwise holds the four
  files, each \<open>None\<close> when missing. A run prints messages (only warnings and errors are
  kept here) and ends in \<open>sys.exit\<close>, in an exception nobody catches, or after phase 8
  has saved the seven output files; no file is written before phase 8.
\<close>

record files =
  patients_csv :: "patient_row list option"
  conditions_csv :: "event_row list option"
  medications_csv :: "event_row list option"
  observations_csv :: "event_row list option"

record outputs =
  condition_codes_json :: "condition_code list"
  medication_codes_json :: "medication_code list"
  lab_codes_json :: "lab_code list"
  patients_json :: "patient list"
  patient_conditions_json :: "patient_condition list"
  patient_medications_json :: "patient_medication list"
  patient_labs_json :: "patient_lab list"

datatype message = Warning string | Error string

datatype outcome = SysExit nat | Uncaught error | Saved outputs

definition load_synthea_csv :: "'r list option \<Rightarrow> 'r dataframe" where
  "load_synthea_csv file = (case file of None \<Rightarrow> EmptyFrame | Some rows \<Rightarrow> Frame rows)"

definition missing_warning :: "'r list option \<Rightarrow> string \<Rightarrow> message list" where
  \<comment> \<open>the warning that \<open>load_synthea_csv\<close>, \<open>extract_lab_codes\<close> and
      \<open>build_patient_labs\<close> print for a missing file\<close>
  "missing_warning file filename = (case file of None \<Rightarrow> [Warning filename] | Some rows \<Rightarrow> [])"

definition files_written :: "outcome \<Rightarrow> nat" where
  "files_written out = (case out of Saved files \<Rightarrow> 7 | _ \<Rightarrow> 0)"

definition main :: "(string \<Rightarrow> int) \<Rightarrow> files option \<Rightarrow> int \<Rightarrow> int \<Rightarrow> message list \<times> outcome" where
  "main hash input_dir patient_limit lab_limit =
     (case input_dir of
        None \<Rightarrow> ([Error ''Input directory not found''], SysExit 1)
      | Some fs \<Rightarrow>
          (let patients_df = load_synthea_csv (patients_csv fs);
               log1 = missing_warning (patients_csv fs) ''patients.csv''
           in if df_empty patients_df
              then (log1 @ [Error ''No patients found. Aborting.''], SysExit 1)
              else
                (let (patients, id_mapping) = transform_patients patients_df patient_limit;
                     synthea_ids = set (map fst id_mapping);
                     log2 = log1 @ missing_warning (conditions_csv fs) ''conditions.csv''
                 in case extract_condition_codes hash (load_synthea_csv (conditions_csv fs))
                           synthea_ids of
                      Inl e \<Rightarrow> (log2, Uncaught e)
                    | Inr condition_codes \<Rightarrow>
                (let log3 = log2 @ missing_warning (medications_csv fs) ''medications.csv''
                 in case extract_medication_codes (load_synthea_csv (medications_csv fs))
                           synthea_ids of
                      Inl e \<Rightarrow> (log3, Uncaught e)
                    | Inr medication_codes \<Rightarrow>
                (let log4 = log3 @ missing_warning (observations_csv fs) ''observations.csv''
                 in case extract_lab_codes (observations_csv fs) synthea_ids 50000 of
                      Inl e \<Rightarrow> (log4, Uncaught e)
                    | Inr lab_codes \<Rightarrow>
                (let patient_conditions =
                       build_patient_conditions (load_synthea_csv (conditions_csv fs)) id_mapping;
                     patient_medications =
                       build_patient_medications (load_synthea_csv (medications_csv fs)) id_mapping;
                     log7 = log4 @ missing_warning (conditions_csv fs) ''conditions.csv''
                              @ missing_warning (medications_csv fs) ''medications.csv''
                              @ missing_warning (observations_csv fs) ''observations.csv''
                 in case build_patient_labs (observations_csv fs) id_mapping lab_limit 25000 of
                      Inl e \<Rightarrow> (log7, Uncaught e)
                    | Inr patient_labs \<Rightarrow>
                        (log7, Saved
                           \<lparr>condition_codes_json = condition_codes,
                            medication_codes_json = medication_codes,
                            lab_codes_json = lab_codes,
                            patients_json = patients,
                            patient_conditions_json = patient_conditions,
                            patient_medications_json = patient_medications,
                            patient_labs_json = patient_labs\<rparr>)))))))"

definition labels_of :: "(string list \<times> string) list \<Rightarrow> string \<Rightarrow> string list" where
  \<comment> \<open>the closed label set of a classifier: the labels of its table, then its default\<close>
  "labels_of table dflt = map snd table @ [dflt]"

section \<open>Evaluation\<close>

text \<open>
  \<open>str_nat\<close> and \<open>chunks_of\<close> recurse under an \<open>if\<close>. For evaluating them by
  rewriting, the test is made an argument, so that the recursion is unfolded only once
  the test has a value.
\<close>

definition str_nat_step :: "bool \<Rightarrow> nat \<Rightarrow> string" where
  "str_nat_step small n =
     (if small then [digit_char n] else str_nat (n div 10) @ [digit_char (n mod 10)])"

definition chunks_of_step :: "bool \<Rightarrow> nat \<Rightarrow> 'r list \<Rightarrow> 'r list list" where
  "chunks_of_step done k rows = (if done then [] else take k rows # chunks_of k (drop k rows))"

section \<open>Example inputs\<close>

definition subject_row :: "string \<Rightarrow> patient_row" where
  "subject_row source_id =
     \<lparr>Id' = source_id, BIRTHDATE = Some ''1980-02-03'', GENDER = Some ''M'',
      RACE = Some ''white'', ETHNICITY = Some ''nonhispanic'', MARITAL = None,
      CITY = Some ''Boston'', STATE = Some ''MA'', ZIP = None, DEATHDATE = None\<rparr>"

definition event :: "string \<Rightarrow> string \<Rightarrow> string \<Rightarrow> event_row" where
  "event source_id code_text description =
     \<lparr>PATIENT = source_id, CODE = code_text, DESCRIPTION = description,
      START = Some ''2020-01-01'', STOP = None, DATE = Some ''2020-01-01'',
      VALUE = Some ''98.6'', UNITS = Some ''mg/dL'', TYPE' = Some ''numeric''\<rparr>"

section \<open>Code equations\<close>

lemma str_nat_code [code]: "str_nat n = str_nat_step (n < 10) n"
  by (subst str_nat.simps) (simp add: str_nat_step_def)

lemma str_nat_step_code [code]:
  "str_nat_step True n = [digit_char n]"
  "str_nat_step False n = str_nat (n div 10) @ [digit_char (n mod 10)]"
  by (simp_all add: str_nat_step_def)

lemma chunks_of_code [code]:
  "chunks_of k rows = chunks_of_step (case rows of [] \<Rightarrow> True | _ # _ \<Rightarrow> k = 0) k rows"
  by (subst chunks_of.simps) (simp add: chunks_of_step_def split: list.split)

lemma chunks_of_step_code [code]:
  "chunks_of_step True k rows = []"
  "chunks_of_step False k rows = take k rows # chunks_of k (drop k rows)"
  by (simp_all add: chunks_of_step_def)

section \<open>Properties of the categorization engine\<close>

lemma first_label_closed: "first_label table dflt s \<in> set (labels_of table dflt)"
  by (induction table dflt s rule: first_label.induct) (auto simp: labels_of_def)

lemma first_label_default:
  "list_all (\<lambda>(keywords, label). \<not> any_kw keywords s) table \<Longrightarrow> first_label table dflt s = dflt"
  by (induction table dflt s rule: first_label.induct) auto

lemma no_keyword_iff:
  "list_all (\<lambda>(keywords, label). \<not> any_kw keywords s) table
   \<longleftrightarrow> (\<forall>(keywords, label) \<in> set table. \<forall>kw \<in> set keywords. \<not> contains s kw)"
  by (auto simp: list_all_iff any_kw_def list_ex_iff)


text \<open>
  C6. Every classifier is total and closed: for every input string (the empty string
  included) the condition category, the drug class and the lab category are each one
  label of the classifier's fixed label set, and the label is the default \<open>Other\<close>,
  with which each set ends, whenever no keyword of the classifier's table is a
  substring of the lower-cased input.
\<close>

theorem classification_total:
  "categorize_condition d \<in> set [''Cardiovascular'', ''Endocrine'', ''Respiratory'', ''Oncology'',
      ''Mental Health'', ''Musculoskeletal'', ''Genitourinary'', ''Digestive'', ''Nervous System'',
      ''Infectious'', ''Blood/Immune'', ''Pregnancy'', ''Skin'', ''Social/Administrative'', ''Other'']
   \<and> categorize_drug d \<in> set [''ACE Inhibitor'', ''ARB'', ''Beta Blocker'',
      ''Calcium Channel Blocker'', ''Diuretic'', ''Statin'', ''Antidiabetic'', ''Insulin'',
      ''Anticoagulant'', ''Antiplatelet'', ''Proton Pump Inhibitor'', ''SSRI Antidepressant'',
      ''Anticonvulsant'', ''Respiratory'', ''Antibiotic'', ''Analgesic/NSAID'', ''Opioid'',
      ''Thyroid Hormone'', ''Corticosteroid'', ''Contraceptive'', ''Other'']
   \<and> categorize_lab d \<in> set [''Glucose/Diabetes'', ''Lipid Panel'', ''Kidney Function'',
      ''Liver Function'', ''Hematology'', ''Electrolytes'', ''Thyroid'', ''Cardiac/Coagulation'',
      ''Urinalysis'', ''Allergy'', ''Vital Signs'', ''Tumor Markers'', ''Other'']
   \<and> ((\<forall>(keywords, label) \<in> set categories. \<forall>kw \<in> set keywords. \<not> contains (lower d) kw)
        \<longrightarrow> categorize_condition d = ''Other'')
   \<and> ((\<forall>(keywords, label) \<in> set drug_classes. \<forall>kw \<in> set keywords. \<not> contains (lower d) kw)
        \<longrightarrow> categorize_drug d = ''Other'')
   \<and> ((\<forall>(keywords, label) \<in> set lab_categories. \<forall>kw \<in> set keywords. \<not> contains (lower d) kw)
        \<longrightarrow> categorize_lab d = ''Other'')"
proof -
  have c: "labels_of categories ''Other'' = [''Cardiovascular'', ''Endocrine'', ''Respiratory'',
      ''Oncology'', ''Mental Health'', ''Musculoskeletal'', ''Genitourinary'', ''Digestive'',
      ''Nervous System'', ''Infectious'', ''Blood/Immune'', ''Pregnancy'', ''Skin'',
      ''Social/Administrative'', ''Other'']"
    by (simp add: labels_of_def categories_def)
  have m: "labels_of drug_classes ''Other'' = [''ACE Inhibitor'', ''ARB'', ''Beta Blocker'',
      ''Calcium Channel Blocker'', ''Diuretic'', ''Statin'', ''Antidiabetic'', ''Insulin'',
      ''Anticoagulant'', ''Antiplatelet'', ''Proton Pump Inhibitor'', ''SSRI Antidepressant'',
      ''Anticonvulsant'', ''Respiratory'', ''Antibiotic'', ''Analgesic/NSAID'', ''Opioid'',
      ''Thyroid Hormone'', ''Corticosteroid'', ''Contraceptive'', ''Other'']"
    by (simp add: labels_of_def drug_classes_def)
  have l: "labels_of lab_categories ''Other'' = [''Glucose/Diabetes'', ''Lipid Panel'',
      ''Kidney Function'', ''Liver Function'', ''Hematology'', ''Electrolytes'', ''Thyroid'',
      ''Cardiac/Coagulation'', ''Urinalysis'', ''Allergy'', ''Vital Signs'', ''Tumor Markers'',
      ''Other'']"
    by (simp add: labels_of_def lab_categories_def)
  have 1: "categorize_condition d \<in> set (labels_of categories ''Other'')"
    unfolding categorize_condition_def by (rule first_label_closed)
  have 2: "categorize_drug d \<in> set (labels_of drug_classes ''Other'')"
    unfolding categorize_drug_def by (rule first_label_closed)
  have 3: "categorize_lab d \<in> set (labels_of lab_categories ''Other'')"
    unfolding categorize_lab_def by (rule first_label_closed)
  have 4: "(\<forall>(keywords, label) \<in> set table. \<forall>kw \<in> set keywords. \<not> contains s kw)
        \<longrightarrow> first_label table ''Other'' s = ''Other''" for table s
    using first_label_default[of s table] by (simp add: no_keyword_iff)
  show ?thesis
    using 1 2 3 4[of categories "lower d"] 4[of drug_classes "lower d"]
      4[of lab_categories "lower d"]
    unfolding c m l categorize_condition_def categorize_drug_def categorize_lab_def
    by blast
qed

theorem classification_total_witness:
  "list_all (\<lambda>(keywords, label). list_all (\<lambda>kw. \<not> contains (lower ''Gout'') kw) keywords)
     categories
   \<and> list_all (\<lambda>(keywords, label). list_all (\<lambda>kw. \<not> contains (lower ''Gout'') kw) keywords)
     drug_classes
   \<and> list_all (\<lambda>(keywords, label). list_all (\<lambda>kw. \<not> contains (lower ''Gout'') kw) keywords)
     lab_categories
   \<and> categorize_condition ''Gout'' = ''Other'' \<and> categorize_drug ''Gout'' = ''Other''
   \<and> categorize_lab ''Gout'' = ''Other''"
proof -
  have a: "list_all (\<lambda>(keywords, label).
      list_all (\<lambda>kw. \<not> contains (lower ''Gout'') kw) keywords) categories"
    by code_simp
  have b: "list_all (\<lambda>(keywords, label).
      list_all (\<lambda>kw. \<not> contains (lower ''Gout'') kw) keywords) drug_classes"
    by code_simp
  have c: "list_all (\<lambda>(keywords, label).
      list_all (\<lambda>kw. \<not> contains (lower ''Gout'') kw) keywords) lab_categories"
    by code_simp
  show ?thesis using a b c classification_total[of "''Gout''"]
    by (simp add: list_all_iff case_prod_unfold)
qed


section \<open>Properties of the generic-name extraction\<close>
















section \<open>Properties of the lab value mapping\<close>

text \<open>
  \<open>float\<close> at the edges of its grammar: the information separators are not dropped
  with the whitespace, the C whitespace is, a numeral beyond the largest double gives an
  infinity of its sign, and underscores group digits.
\<close>

lemma py_float_examples:
  "py_float [CHR 0x1C, CHR ''1'', CHR 0x1F] = None"
  "py_float [CHR '' '', CHR 0x09, CHR ''1'', CHR 0x0A] = Some (Finite 1)"
  "py_float ''1e400'' = Some (Infinity False)"
  "py_float ''-1e309'' = Some (Infinity True)"
  "py_float ''1e308'' = Some (Finite (10 ^ 308))"
  "py_float ''1_0.5e-1'' = Some (Finite (105 / 100))"
  by code_simp+


section \<open>Properties of the prevalence estimate\<close>

lemma estimate_prevalence_eq:
  "estimate_prevalence h c = of_int (1 + h c mod 30) / 100"
proof -
  have "(1 / 100 + of_int (h c mod 30) / 100) * 100 = (of_int (1 + h c mod 30) :: rat)"
    by simp
  then show ?thesis
    unfolding estimate_prevalence_def py_round2_def Let_def by (simp only: round_of_int)
qed

text \<open>
  C1. Whatever the hash, the estimate is a multiple of 0.01 between 0.01 and 0.30. It is
  not a function of the code string alone: it is computed from the built-in hash of the
  running process, and two processes whose hashes of one code differ modulo 30 (here 0
  and 7, for the code 44054006) estimate different prevalences for it.
\<close>

theorem prevalence_depends_on_process_hash:
  "(\<forall>h c. 1 / 100 \<le> estimate_prevalence h c \<and> estimate_prevalence h c \<le> 30 / 100
        \<and> (\<exists>k. estimate_prevalence h c = of_int k / 100))
   \<and> estimate_prevalence (\<lambda>s. 0) ''44054006'' = 1 / 100
   \<and> estimate_prevalence (\<lambda>s. 7) ''44054006'' = 8 / 100"
proof -
  have r: "1 / 100 \<le> estimate_prevalence h c \<and> estimate_prevalence h c \<le> 30 / 100
        \<and> (\<exists>k. estimate_prevalence h c = of_int k / 100)" for h c
  proof -
    have "0 \<le> h c mod 30" "h c mod 30 < 30" by simp_all
    then have "(1::rat) \<le> of_int (1 + h c mod 30)" "of_int (1 + h c mod 30) \<le> (30::rat)"
      by linarith+
    then have "1 / 100 \<le> estimate_prevalence h c" "estimate_prevalence h c \<le> 30 / 100"
      unfolding estimate_prevalence_eq by (simp_all add: divide_right_mono)
    moreover have "\<exists>k. estimate_prevalence h c = of_int k / 100"
      by (rule exI[of _ "1 + h c mod 30"]) (rule estimate_prevalence_eq)
    ultimately show ?thesis by blast
  qed
  show ?thesis using r by (simp add: estimate_prevalence_eq)
qed

section \<open>Properties of the orchestrator\<close>

text \<open>
  C9. Without the subject file the run ends in \<open>sys.exit(1)\<close> with nothing written,
  and without the observations file it goes on with empty lab outputs. Without the
  conditions file, or the medications file, it does not go on: the frame returned for
  the missing file has no column, the code extraction selects its \<open>PATIENT\<close> column,
  and the run ends in an uncaught \<open>KeyError\<close> with nothing written.
\<close>

theorem missing_optional_file_raises:
  "snd (main h (Some (fs\<lparr>patients_csv := Some (p # ps), conditions_csv := None\<rparr>))
          patient_limit lab_limit)
     = Uncaught (KeyError ''PATIENT'')
   \<and> snd (main h (Some (fs\<lparr>patients_csv := Some (p # ps), conditions_csv := Some cs,
                           medications_csv := None\<rparr>)) patient_limit lab_limit)
     = Uncaught (KeyError ''PATIENT'')
   \<and> (\<exists>saved. snd (main h (Some (fs\<lparr>patients_csv := Some (p # ps), conditions_csv := Some cs,
                           medications_csv := Some ms, observations_csv := None\<rparr>))
                       patient_limit lab_limit) = Saved saved
          \<and> lab_codes_json saved = [] \<and> patient_labs_json saved = [])
   \<and> main h (Some (fs\<lparr>patients_csv := None\<rparr>)) patient_limit lab_limit
     = ([Warning ''patients.csv'', Error ''No patients found. Aborting.''], SysExit 1)
   \<and> files_written (SysExit 1) = 0 \<and> files_written (Uncaught (KeyError ''PATIENT'')) = 0"
  by (simp add: main_def load_synthea_csv_def df_empty_def rows_of_def missing_warning_def
      extract_condition_codes_def extract_medication_codes_def extract_lab_codes_def
      build_patient_labs_def build_patient_labs_run_def files_written_def
      split: prod.split)


section \<open>Properties of the identity mapper\<close>

subsection \<open>Decimal numerals\<close>

lemma digits_value_snoc:
  "digits_value (ds @ [c]) = 10 * digits_value ds + ((of_char c :: nat) - 48)"
  by (simp add: digits_value_def)

lemma digit_char_value: "d < 10 \<Longrightarrow> (of_char (digit_char d) :: nat) - 48 = d"
  by (simp add: digit_char_def)

lemma digits_value_str_nat: "digits_value (str_nat n) = n"
proof (induction n rule: str_nat.induct)
  case (1 n)
  show ?case
  proof (cases "n < 10")
    case True
    then show ?thesis
      by (subst str_nat.simps) (simp add: digits_value_def digit_char_value)
  next
    case False
    with 1 have "digits_value (str_nat (n div 10)) = n div 10" by simp
    with False show ?thesis
      by (subst str_nat.simps) (simp add: digits_value_snoc digit_char_value)
  qed
qed

lemma digits_value_zeros: "digits_value (replicate k CHR ''0'' @ s) = digits_value s"
proof -
  have "foldl (\<lambda>a c. 10 * a + ((of_char c :: nat) - 48)) 0 (replicate k CHR ''0'') = 0"
    by (induction k) simp_all
  then show ?thesis by (simp add: digits_value_def)
qed

lemma digits_value_fmt_05d: "digits_value (fmt_05d n) = n"
  by (simp add: fmt_05d_def Let_def digits_value_zeros digits_value_str_nat)

lemma fmt_05d_inj: "fmt_05d m = fmt_05d n \<Longrightarrow> m = n"
  by (metis digits_value_fmt_05d)

lemma length_str_nat_pos: "0 < length (str_nat n)"
  by (subst str_nat.simps) simp

lemma length_str_nat_le: "n < 10 ^ k \<Longrightarrow> 0 < k \<Longrightarrow> length (str_nat n) \<le> k"
proof (induction n arbitrary: k rule: str_nat.induct)
  case (1 n)
  show ?case
  proof (cases "n < 10")
    case True
    with 1(3) show ?thesis by (subst str_nat.simps) simp
  next
    case False
    from 1(3) obtain k' where k: "k = Suc k'" by (cases k) auto
    with 1(2) False have "0 < k'" by (cases k') auto
    moreover from 1(2) k have "n div 10 < 10 ^ k'" by (simp add: less_mult_imp_div_less)
    ultimately have "length (str_nat (n div 10)) \<le> k'" using 1(1) False by simp
    with False k show ?thesis by (subst str_nat.simps) simp
  qed
qed

lemma length_fmt_05d: "n < 100000 \<Longrightarrow> length (fmt_05d n) = 5"
  using length_str_nat_le[of n 5] by (simp add: fmt_05d_def Let_def)

lemma length_fmt_05d_ge: "5 \<le> length (fmt_05d n)"
  by (simp add: fmt_05d_def Let_def)


subsection \<open>The loop of \<open>transform_patients\<close>\<close>

lemma synthetic_id_map_patient [simp]:
  "synthetic_id (map_patient row index) = ''SYN-'' @ fmt_05d index"
  by (simp add: map_patient_def)

lemma transform_loop_eq:
  "transform_loop irs ps m =
     (ps @ map (\<lambda>(idx, row). map_patient row (idx + 1)) irs,
      foldl (\<lambda>m (idx, row). AList.update (Id' row) (''SYN-'' @ fmt_05d (idx + 1)) m) m irs)"
  by (induction irs ps m rule: transform_loop.induct) (simp_all add: Let_def)

lemma map_iterrows:
  "map (\<lambda>(idx, row). f idx row) (iterrows rows) = map (\<lambda>i. f i (rows ! i)) [0..<length rows]"
  by (rule nth_equalityI) (simp_all add: iterrows_def)

lemma head_nonneg: "0 \<le> limit \<Longrightarrow> head rows limit = take (min (length rows) (nat limit)) rows"
  by (simp add: head_def min_def)

lemma foldl_update_keys:
  "fst ` set (foldl (\<lambda>m (idx, row). AList.update (Id' row) (g idx) m) m irs)
     = fst ` set m \<union> (\<lambda>(idx, row). Id' row) ` set irs"
  by (induction irs arbitrary: m) (simp_all add: dom_update case_prod_unfold Un_ac)

lemma foldl_update_distinct:
  "distinct (map fst m) \<Longrightarrow>
   distinct (map fst (foldl (\<lambda>m (idx, row). AList.update (Id' row) (g idx) m) m irs))"
  by (induction irs arbitrary: m) (auto simp: distinct_update)

lemma foldl_update_other:
  "\<forall>(idx, row) \<in> set irs. Id' row \<noteq> k \<Longrightarrow>
   map_of (foldl (\<lambda>m (idx, row). AList.update (Id' row) (g idx) m) m irs) k = map_of m k"
  by (induction irs arbitrary: m) (auto simp: update_conv')

lemma foldl_update_last:
  assumes "i < length rows" and "\<forall>j. i < j \<and> j < length rows \<longrightarrow> Id' (rows ! j) \<noteq> Id' (rows ! i)"
  shows "map_of (foldl (\<lambda>m (idx, row). AList.update (Id' row) (g idx) m) m (iterrows rows))
           (Id' (rows ! i)) = Some (g i)"
proof -
  let ?upd = "\<lambda>m (idx, row). AList.update (Id' row) (g idx) m"
  let ?irs = "iterrows rows"
  have len: "length ?irs = length rows" by (simp add: iterrows_def)
  have nth: "?irs ! j = (j, rows ! j)" if "j < length rows" for j
    using that by (simp add: iterrows_def)
  have split: "?irs = take i ?irs @ (i, rows ! i) # drop (Suc i) ?irs"
    using assms(1) len nth[of i] by (metis id_take_nth_drop)
  have rest: "\<forall>(idx, row) \<in> set (drop (Suc i) ?irs). Id' row \<noteq> Id' (rows ! i)"
  proof (clarify)
    fix idx row assume m: "(idx, row) \<in> set (drop (Suc i) ?irs)" and e: "Id' row = Id' (rows ! i)"
    from m obtain l where l: "l < length (drop (Suc i) ?irs)" "drop (Suc i) ?irs ! l = (idx, row)"
      by (auto simp: in_set_conv_nth)
    then have "Suc i + l < length rows" using len by simp
    with l(2) have "(idx, row) = (Suc i + l, rows ! (Suc i + l))"
      using nth[of "Suc i + l"] len by simp
    with assms(2) \<open>Suc i + l < length rows\<close> e show False by auto
  qed
  have "foldl ?upd m ?irs
      = foldl ?upd (AList.update (Id' (rows ! i)) (g i) (foldl ?upd m (take i ?irs))) (drop (Suc i) ?irs)"
    by (subst split) simp
  then show ?thesis
    using foldl_update_other[OF rest, of g] by (simp add: update_conv')
qed

lemma length_alist_keys:
  "distinct (map fst m) \<Longrightarrow> fst ` set m = f ` set rows \<Longrightarrow> length m = card (set (map f rows))"
  by (metis distinct_card length_map list.set_map)

lemma card_keys_less:
  "\<not> distinct (map f rows) \<Longrightarrow> card (set (map f rows)) < length rows"
  by (metis card_distinct card_length le_neq_implies_less length_map)


subsection \<open>Evaluating the identifier format\<close>

lemma digit_char_eqI: "d < 10 \<Longrightarrow> (of_char c :: nat) = 48 + d \<Longrightarrow> digit_char d = c"
  by (metis char_of_char digit_char_def)

lemma digit_chars:
  "digit_char 0 = CHR ''0''" "digit_char 1 = CHR ''1''" "digit_char 2 = CHR ''2''"
  "digit_char 3 = CHR ''3''" "digit_char 4 = CHR ''4''" "digit_char 5 = CHR ''5''"
  "digit_char 6 = CHR ''6''" "digit_char 7 = CHR ''7''" "digit_char 8 = CHR ''8''"
  "digit_char 9 = CHR ''9''" "digit_char (Suc 0) = CHR ''1''"
  by (rule digit_char_eqI; simp)+

lemma str_nat_digit: "n < 10 \<Longrightarrow> str_nat n = [digit_char n]"
  by (subst str_nat.simps) simp

lemma str_nat_digits: "10 \<le> n \<Longrightarrow> str_nat n = str_nat (n div 10) @ [digit_char (n mod 10)]"
  by (subst str_nat.simps) simp

subsection \<open>The cohort\<close>

lemma transform_patients_eq:
  "transform_patients (Frame rows) limit =
     (map (\<lambda>i. map_patient (head rows limit ! i) (i + 1)) [0..<length (head rows limit)],
      foldl (\<lambda>m (idx, row). AList.update (Id' row) (''SYN-'' @ fmt_05d (idx + 1)) m) []
        (iterrows (head rows limit)))"
  by (simp add: transform_patients_def rows_of_def transform_loop_eq map_iterrows)

lemma distinct_synthetic_ids:
  "distinct (map (\<lambda>i. ''SYN-'' @ fmt_05d (i + 1)) [0..<k])"
  by (auto simp: distinct_map inj_on_def dest: fmt_05d_inj)

text \<open>
  C2 (as amended). For every subject table of \<open>n\<close> rows and every cohort limit
  \<open>N \<ge> 0\<close>, \<open>transform_patients\<close> processes exactly the first \<open>min n N\<close> rows in
  stream order and emits exactly \<open>min n N\<close> Subjects, whose synthetic ids are
  \<open>SYN-\<close> followed by the running 1-based counter padded with zeros to five digits:
  they are pairwise distinct, and nine characters long as long as fewer than 100000
  subjects are emitted. The lookup table has exactly one entry per distinct source id
  among those rows, hence exactly \<open>min n N\<close> entries when their source ids are pairwise
  distinct.
\<close>

theorem transform_patients_cohort:
  assumes "0 \<le> limit" and "transform_patients (Frame rows) limit = (patients, id_mapping)"
  shows "patients = map (\<lambda>i. map_patient (rows ! i) (i + 1)) [0..<min (length rows) (nat limit)]
    \<and> length patients = min (length rows) (nat limit)
    \<and> map synthetic_id patients
        = map (\<lambda>i. ''SYN-'' @ fmt_05d (i + 1)) [0..<min (length rows) (nat limit)]
    \<and> distinct (map synthetic_id patients)
    \<and> (min (length rows) (nat limit) < 100000
        \<longrightarrow> (\<forall>p \<in> set patients. length (synthetic_id p) = 9))
    \<and> distinct (map fst id_mapping)
    \<and> set (map fst id_mapping) = Id' ` set (take (min (length rows) (nat limit)) rows)
    \<and> (distinct (map Id' (take (min (length rows) (nat limit)) rows))
        \<longrightarrow> length id_mapping = min (length rows) (nat limit))"
proof -
  let ?k = "min (length rows) (nat limit)"
  let ?rs = "take ?k rows"
  have h: "head rows limit = ?rs" using assms(1) by (rule head_nonneg)
  have len: "length ?rs = ?k" by simp
  from assms(2) have p: "patients = map (\<lambda>i. map_patient (?rs ! i) (i + 1)) [0..<?k]"
    and m: "id_mapping = foldl (\<lambda>m (idx, row). AList.update (Id' row) (''SYN-'' @ fmt_05d (idx + 1)) m) []
        (iterrows ?rs)"
    unfolding transform_patients_eq h by simp_all
  have 1: "patients = map (\<lambda>i. map_patient (rows ! i) (i + 1)) [0..<?k]"
    unfolding p by (rule map_cong) simp_all
  have 3: "map synthetic_id patients = map (\<lambda>i. ''SYN-'' @ fmt_05d (i + 1)) [0..<?k]"
    unfolding 1 by simp
  have 4: "distinct (map synthetic_id patients)"
    unfolding 3 by (rule distinct_synthetic_ids)
  have 5: "\<forall>p \<in> set patients. length (synthetic_id p) = 9" if "?k < 100000"
  proof
    fix q assume "q \<in> set patients"
    then have "synthetic_id q \<in> set (map synthetic_id patients)" by simp
    then obtain i where "i < ?k" and "synthetic_id q = ''SYN-'' @ fmt_05d (i + 1)"
      unfolding 3 by auto
    moreover from \<open>i < ?k\<close> that have "i + 1 < 100000" by linarith
    then have "length (fmt_05d (i + 1)) = 5" by (rule length_fmt_05d)
    ultimately show "length (synthetic_id q) = 9" by simp
  qed
  have 6: "distinct (map fst id_mapping)"
    unfolding m by (rule foldl_update_distinct) simp
  have keys: "fst ` set id_mapping = Id' ` set ?rs"
    unfolding m foldl_update_keys
    by (force simp: iterrows_def in_set_zip in_set_conv_nth)
  have 8: "length id_mapping = ?k" if "distinct (map Id' ?rs)"
    using length_alist_keys[OF 6 keys] that distinct_card[OF that] by simp
  show ?thesis using 1 3 4 5 6 keys 8 by simp
qed

theorem transform_patients_cohort_witness:
  "length (fst (transform_patients (Frame (map subject_row
      [''a'', ''b'', ''c'', ''d'', ''e'', ''f'', ''g'', ''h'', ''i'', ''j''])) 3)) = 3
   \<and> map synthetic_id (fst (transform_patients (Frame (map subject_row
      [''a'', ''b'', ''c'', ''d'', ''e'', ''f'', ''g'', ''h'', ''i'', ''j''])) 3))
       = [''SYN-00001'', ''SYN-00002'', ''SYN-00003'']
   \<and> length (snd (transform_patients (Frame (map subject_row
      [''a'', ''b'', ''c'', ''d'', ''e'', ''f'', ''g'', ''h'', ''i'', ''j''])) 3)) = 3
   \<and> map fst (snd (transform_patients (Frame (map subject_row
      [''a'', ''b'', ''c'', ''d'', ''e'', ''f'', ''g'', ''h'', ''i'', ''j''])) 3))
       = [''a'', ''b'', ''c'']"
proof -
  let ?rows = "map subject_row [''a'', ''b'', ''c'', ''d'', ''e'', ''f'', ''g'', ''h'', ''i'', ''j'']"
  have l: "(0::int) \<le> 3" by simp
  have e: "transform_patients (Frame ?rows) 3
      = (fst (transform_patients (Frame ?rows) 3), snd (transform_patients (Frame ?rows) 3))"
    by simp
  have d: "distinct (map Id' (take (min (length ?rows) (nat 3)) ?rows))"
    by (simp add: subject_row_def)
  have i: "map (\<lambda>i. ''SYN-'' @ fmt_05d (i + 1)) [0..<min (length ?rows) (nat 3)]
      = [''SYN-00001'', ''SYN-00002'', ''SYN-00003'']"
    by code_simp
  have k: "map fst (snd (transform_patients (Frame ?rows) 3)) = [''a'', ''b'', ''c'']"
    by code_simp
  show ?thesis using transform_patients_cohort[OF l e] d i k by simp
qed

text \<open>
  C2 as stated fails in three ways: two rows with one source id give two Subjects and one
  lookup entry; the counter 100000 gives a six-digit id, so the width is not fixed; and a
  negative limit keeps all rows but the last ones (\<open>df.head\<close>), here one row of two.
\<close>

theorem transform_patients_cohort_counterexample:
  "length (fst (transform_patients (Frame [subject_row ''a'', subject_row ''a'']) 2)) = 2
   \<and> length (snd (transform_patients (Frame [subject_row ''a'', subject_row ''a'']) 2)) = 1
   \<and> synthetic_id (map_patient (subject_row ''a'') 1) = ''SYN-00001''
   \<and> synthetic_id (map_patient (subject_row ''a'') 100000) = ''SYN-100000''
   \<and> length (fst (transform_patients (Frame [subject_row ''a'', subject_row ''b'']) (- 1))) = 1"
proof -
  have a: "length (fst (transform_patients (Frame [subject_row ''a'', subject_row ''a'']) 2)) = 2
    \<and> length (snd (transform_patients (Frame [subject_row ''a'', subject_row ''a'']) 2)) = 1"
    by code_simp
  have b: "synthetic_id (map_patient (subject_row ''a'') 1) = ''SYN-00001''"
    by code_simp
  have c: "synthetic_id (map_patient (subject_row ''a'') 100000) = ''SYN-100000''"
    by (simp add: fmt_05d_def str_nat_digit str_nat_digits digit_chars)
  have d: "length (fst (transform_patients (Frame [subject_row ''a'', subject_row ''b'']) (- 1))) = 1"
    by code_simp
  show ?thesis using a b c d by blast
qed


text \<open>
  C10. When two of the first \<open>min n N\<close> subject rows share a source id,
  \<open>transform_patients\<close> still emits one Subject per row, with pairwise distinct
  synthetic ids, but the lookup table holds a single entry for that source id, whose
  value is the synthetic id of the last row bearing it, and so has strictly fewer
  entries than there are Subjects.
\<close>

theorem duplicate_source_ids_collapse:
  assumes "0 \<le> limit" and "transform_patients (Frame rows) limit = (patients, id_mapping)"
    and "i < j" and "j < min (length rows) (nat limit)" and "Id' (rows ! i) = Id' (rows ! j)"
  shows "length patients = min (length rows) (nat limit)
    \<and> distinct (map synthetic_id patients)
    \<and> distinct (map fst id_mapping)
    \<and> length id_mapping < length patients
    \<and> (\<exists>l. j \<le> l \<and> l < min (length rows) (nat limit) \<and> Id' (rows ! l) = Id' (rows ! i)
          \<and> (\<forall>l'. l < l' \<and> l' < min (length rows) (nat limit) \<longrightarrow> Id' (rows ! l') \<noteq> Id' (rows ! i))
          \<and> map_of id_mapping (Id' (rows ! i)) = Some (synthetic_id (patients ! l)))"
proof -
  let ?k = "min (length rows) (nat limit)"
  let ?rs = "take ?k rows"
  let ?g = "\<lambda>idx. ''SYN-'' @ fmt_05d (idx + 1)"
  have h: "head rows limit = ?rs" using assms(1) by (rule head_nonneg)
  have len: "length ?rs = ?k" by simp
  from assms(2) have p: "patients = map (\<lambda>i. map_patient (?rs ! i) (i + 1)) [0..<?k]"
    and m: "id_mapping = foldl (\<lambda>m (idx, row). AList.update (Id' row) (?g idx) m) [] (iterrows ?rs)"
    unfolding transform_patients_eq h by simp_all
  have 1: "length patients = ?k" unfolding p by simp
  have ids: "map synthetic_id patients = map ?g [0..<?k]"
    unfolding p by simp
  have 2: "distinct (map synthetic_id patients)"
    unfolding ids by (rule distinct_synthetic_ids)
  have 3: "distinct (map fst id_mapping)"
    unfolding m by (rule foldl_update_distinct) simp
  have keys: "fst ` set id_mapping = Id' ` set ?rs"
    unfolding m foldl_update_keys
    by (force simp: iterrows_def in_set_zip in_set_conv_nth)
  have "\<not> distinct (map Id' ?rs)"
  proof
    assume "distinct (map Id' ?rs)"
    moreover have "i < length (map Id' ?rs)" "j < length (map Id' ?rs)" "i \<noteq> j"
      using assms(3,4) by simp_all
    moreover have "map Id' ?rs ! i = map Id' ?rs ! j"
      using assms(3,4,5) by simp
    ultimately show False by (simp only: nth_eq_iff_index_eq)
  qed
  then have "card (set (map Id' ?rs)) < length ?rs" by (rule card_keys_less)
  then have 4: "length id_mapping < length patients"
    using length_alist_keys[OF 3 keys] 1 by simp
  let ?S = "{l. l < ?k \<and> Id' (rows ! l) = Id' (rows ! i)}"
  have fin: "finite ?S" by simp
  have jS: "j \<in> ?S" using assms(4,5) by simp
  define l where "l = Max ?S"
  have lS: "l \<in> ?S" unfolding l_def using fin jS by (intro Max_in) auto
  have jl: "j \<le> l" unfolding l_def using fin jS by (rule Max_ge)
  have last: "Id' (rows ! l') \<noteq> Id' (rows ! i)" if "l < l'" "l' < ?k" for l'
  proof
    assume "Id' (rows ! l') = Id' (rows ! i)"
    with that(2) have "l' \<in> ?S" by simp
    then have "l' \<le> l" unfolding l_def using fin by (intro Max_ge)
    with that(1) show False by simp
  qed
  have "map_of (foldl (\<lambda>m (idx, row). AList.update (Id' row) (?g idx) m) [] (iterrows ?rs))
          (Id' (?rs ! l)) = Some (?g l)"
  proof (rule foldl_update_last)
    show "l < length ?rs" using lS by simp
    show "\<forall>j'. l < j' \<and> j' < length ?rs \<longrightarrow> Id' (?rs ! j') \<noteq> Id' (?rs ! l)"
      using last lS by simp
  qed
  then have "map_of id_mapping (Id' (rows ! i)) = Some (?g l)"
    unfolding m using lS by simp
  moreover have "synthetic_id (patients ! l) = ?g l"
    unfolding p using lS by simp
  ultimately have 5: "map_of id_mapping (Id' (rows ! i)) = Some (synthetic_id (patients ! l))"
    by simp
  from lS jl last 5 have "\<exists>l. j \<le> l \<and> l < ?k \<and> Id' (rows ! l) = Id' (rows ! i)
          \<and> (\<forall>l'. l < l' \<and> l' < ?k \<longrightarrow> Id' (rows ! l') \<noteq> Id' (rows ! i))
          \<and> map_of id_mapping (Id' (rows ! i)) = Some (synthetic_id (patients ! l))"
    by blast
  with 1 2 3 4 show ?thesis by blast
qed

theorem duplicate_source_ids_collapse_witness:
  "length (fst (transform_patients (Frame (map subject_row [''a'', ''b'', ''a''])) 3)) = 3
   \<and> snd (transform_patients (Frame (map subject_row [''a'', ''b'', ''a''])) 3)
       = [(''a'', ''SYN-00003''), (''b'', ''SYN-00002'')]
   \<and> length (snd (transform_patients (Frame (map subject_row [''a'', ''b'', ''a''])) 3))
       < length (fst (transform_patients (Frame (map subject_row [''a'', ''b'', ''a''])) 3))"
proof -
  let ?rows = "map subject_row [''a'', ''b'', ''a'']"
  have l: "(0::int) \<le> 3" by simp
  have e: "transform_patients (Frame ?rows) 3
      = (fst (transform_patients (Frame ?rows) 3), snd (transform_patients (Frame ?rows) 3))"
    by simp
  have ij: "(0::nat) < 2" "2 < min (length ?rows) (nat 3)" "Id' (?rows ! 0) = Id' (?rows ! 2)"
    by (simp_all add: subject_row_def)
  have v: "snd (transform_patients (Frame ?rows) 3) = [(''a'', ''SYN-00003''), (''b'', ''SYN-00002'')]"
    by code_simp
  show ?thesis using duplicate_source_ids_collapse[OF l e ij] v by simp
qed


section \<open>Properties of the relationship builders\<close>

lemma conditions_loop_eq:
  "conditions_loop rows m rels =
     rels @ List.map_filter
       (\<lambda>row. map_option (\<lambda>s. map_patient_condition s row) (map_of m (PATIENT row))) rows"
  by (induction rows m rels rule: conditions_loop.induct)
     (simp_all add: List.map_filter_simps split: option.split)

lemma medications_loop_eq:
  "medications_loop rows m rels =
     rels @ List.map_filter
       (\<lambda>row. map_option (\<lambda>s. map_patient_medication s row) (map_of m (PATIENT row))) rows"
  by (induction rows m rels rule: medications_loop.induct)
     (simp_all add: List.map_filter_simps split: option.split)

lemma labs_rows_loop_eq:
  "labs_rows_loop rows m mx rels =
     rels @ take (nat mx - length rels) (List.map_filter
       (\<lambda>row. map_option (\<lambda>s. map_patient_lab s row) (map_of m (PATIENT row))) rows)"
proof (induction rows m mx rels rule: labs_rows_loop.induct)
  case (1 m mx rels)
  then show ?case by (simp add: List.map_filter_simps)
next
  case (2 row rows m mx rels)
  show ?case
  proof (cases "int (length rels) \<ge> mx")
    case True
    then have "nat mx - length rels = 0" by simp
    with True show ?thesis by simp
  next
    case False
    then obtain d where d: "nat mx - length rels = Suc d"
      by (cases "nat mx - length rels") auto
    then have d': "nat mx - Suc (length rels) = d" by simp
    show ?thesis
    proof (cases "map_of m (PATIENT row)")
      case None
      with False 2(1) show ?thesis by (simp add: List.map_filter_simps)
    next
      case (Some s)
      with False 2(2) d d' show ?thesis by (simp add: List.map_filter_simps)
    qed
  qed
qed

lemma map_filter_append:
  "List.map_filter f (xs @ ys) = List.map_filter f xs @ List.map_filter f ys"
  by (simp add: List.map_filter_def)

lemma take_take_append:
  "take n xs @ take (n - length (take n xs)) ys = take n (xs @ ys)"
  by (cases "n \<le> length xs") (simp_all add: min_def)

lemma labs_chunks_loop_relationships:
  "relationships (labs_chunks_loop chunks m mx run) =
     relationships run @ take (nat mx - length (relationships run)) (List.map_filter
       (\<lambda>row. map_option (\<lambda>s. map_patient_lab s row) (map_of m (PATIENT row))) (concat chunks))"
proof (induction chunks m mx run rule: labs_chunks_loop.induct)
  case (1 m mx run)
  then show ?case by (simp add: List.map_filter_simps)
next
  case (2 chunk chunks m mx run)
  let ?F = "List.map_filter
       (\<lambda>row. map_option (\<lambda>s. map_patient_lab s row) (map_of m (PATIENT row)))"
  let ?d = "nat mx - length (relationships run)"
  show ?case
  proof (cases "int (length (relationships run)) \<ge> mx")
    case True
    then have "?d = 0" by simp
    with True show ?thesis by (simp add: Let_def)
  next
    case False
    let ?run1 = "run\<lparr>chunks_read := chunks_read run + 1\<rparr>"
    let ?run2 = "?run1\<lparr>relationships := labs_rows_loop chunk m mx (relationships ?run1)\<rparr>"
    have r2: "relationships ?run2 = relationships run @ take ?d (?F chunk)"
      by (simp add: labs_rows_loop_eq)
    have "labs_chunks_loop (chunk # chunks) m mx run = labs_chunks_loop chunks m mx ?run2"
      using False by (simp add: Let_def)
    also have "relationships \<dots> = relationships ?run2
        @ take (nat mx - length (relationships ?run2)) (?F (concat chunks))"
      using False 2 by (simp add: Let_def)
    also have "\<dots> = relationships run
        @ (take ?d (?F chunk) @ take (?d - length (take ?d (?F chunk))) (?F (concat chunks)))"
      unfolding r2 by (simp add: diff_diff_left)
    also have "\<dots> = relationships run @ take ?d (?F (concat (chunk # chunks)))"
      unfolding take_take_append by (simp add: map_filter_append)
    finally show ?thesis .
  qed
qed

lemma cap_arith: "mx \<le> int (a + b + c) \<Longrightarrow> mx \<le> int (a + min (nat mx - a) b + c)"
  by arith

lemma labs_chunks_loop_reads:
  "mx \<le> int (length (relationships run) + length (List.map_filter
       (\<lambda>row. map_option (\<lambda>s. map_patient_lab s row) (map_of m (PATIENT row)))
       (concat (take k chunks))))
   \<Longrightarrow> chunks_read (labs_chunks_loop chunks m mx run) \<le> chunks_read run + k + 1"
proof (induction chunks m mx run arbitrary: k rule: labs_chunks_loop.induct)
  case (1 m mx run)
  then show ?case by simp
next
  case (2 chunk chunks m mx run)
  let ?F = "List.map_filter
       (\<lambda>row. map_option (\<lambda>s. map_patient_lab s row) (map_of m (PATIENT row)))"
  show ?case
  proof (cases "int (length (relationships run)) \<ge> mx")
    case True
    then show ?thesis by (simp add: Let_def)
  next
    case False
    let ?run1 = "run\<lparr>chunks_read := chunks_read run + 1\<rparr>"
    let ?run2 = "?run1\<lparr>relationships := labs_rows_loop chunk m mx (relationships ?run1)\<rparr>"
    have step: "labs_chunks_loop (chunk # chunks) m mx run = labs_chunks_loop chunks m mx ?run2"
      using False by (simp add: Let_def)
    from False 2(2) obtain k' where k: "k = Suc k'"
      by (cases k) auto
    let ?d = "nat mx - length (relationships run)"
    have r2: "length (relationships ?run2) = length (relationships run) + min ?d (length (?F chunk))"
      by (simp add: labs_rows_loop_eq min.commute)
    have "mx \<le> int (length (relationships run) + length (?F chunk)
        + length (?F (concat (take k' chunks))))"
      using 2(2) unfolding k by (simp add: map_filter_append)
    then have "mx \<le> int (length (relationships ?run2) + length (?F (concat (take k' chunks))))"
      unfolding r2 by (rule cap_arith)
    with 2(1) False have "chunks_read (labs_chunks_loop chunks m mx ?run2)
        \<le> chunks_read ?run2 + k' + 1"
      by (simp add: Let_def)
    then show ?thesis unfolding step k by simp
  qed
qed

lemma labs_chunks_loop_reads_le:
  "chunks_read (labs_chunks_loop chunks m mx run) \<le> chunks_read run + length chunks"
  by (induction chunks m mx run rule: labs_chunks_loop.induct) (auto simp: Let_def)

lemma concat_chunks_of: "0 < k \<Longrightarrow> concat (chunks_of k rows) = rows"
proof (induction k rows rule: chunks_of.induct)
  case (1 k rows)
  then show ?case by (subst chunks_of.simps) simp
qed


lemma update_values: "snd ` set (AList.update k v al) \<subseteq> insert v (snd ` set al)"
  by (induction al) auto

lemma foldl_update_values:
  "snd ` set (foldl (\<lambda>m (idx, row). AList.update (Id' row) (g idx) m) m irs)
     \<subseteq> snd ` set m \<union> (\<lambda>(idx, row). g idx) ` set irs"
proof (induction irs arbitrary: m)
  case Nil
  then show ?case by simp
next
  case (Cons ir irs)
  obtain idx row where ir: "ir = (idx, row)" by (cases ir)
  have "snd ` set (foldl (\<lambda>m (idx, row). AList.update (Id' row) (g idx) m) m (ir # irs))
      \<subseteq> snd ` set (AList.update (Id' row) (g idx) m) \<union> (\<lambda>(idx, row). g idx) ` set irs"
    unfolding ir using Cons[of "AList.update (Id' row) (g idx) m"] by simp
  also have "\<dots> \<subseteq> snd ` set m \<union> (\<lambda>(idx, row). g idx) ` set (ir # irs)"
    unfolding ir using update_values[of "Id' row" "g idx" m] by auto
  finally show ?case .
qed

lemma transform_patients_values:
  assumes "transform_patients df limit = (patients, id_mapping)"
  shows "snd ` set id_mapping \<subseteq> synthetic_id ` set patients"
proof -
  let ?irs = "iterrows (head (rows_of df) limit)"
  let ?g = "\<lambda>idx. ''SYN-'' @ fmt_05d (idx + 1)"
  from assms have p: "patients = map (\<lambda>(idx, row). map_patient row (idx + 1)) ?irs"
    and m: "id_mapping = foldl (\<lambda>m (idx, row). AList.update (Id' row) (?g idx) m) [] ?irs"
    by (simp_all add: transform_patients_def transform_loop_eq)
  have "synthetic_id ` set patients = (\<lambda>(idx, row). ?g idx) ` set ?irs"
    unfolding p by (force simp: image_iff)
  then show ?thesis unfolding m using foldl_update_values[of ?g "[]" ?irs] by simp
qed

lemma lookup_in_values: "map_of m k = Some v \<Longrightarrow> v \<in> snd ` set m"
  by (metis map_of_SomeD snd_conv image_eqI)

lemma build_patient_conditions_eq:
  "build_patient_conditions df m = List.map_filter
     (\<lambda>row. map_option (\<lambda>s. map_patient_condition s row) (map_of m (PATIENT row))) (rows_of df)"
  by (simp add: build_patient_conditions_def conditions_loop_eq)

lemma build_patient_medications_eq:
  "build_patient_medications df m = List.map_filter
     (\<lambda>row. map_option (\<lambda>s. map_patient_medication s row) (map_of m (PATIENT row))) (rows_of df)"
  by (simp add: build_patient_medications_def medications_loop_eq)

lemma read_csv_chunks_concat:
  "read_csv_chunks rows chunk_size = Inr chunks \<Longrightarrow> concat chunks = rows"
  by (auto simp: read_csv_chunks_def concat_chunks_of split: if_splits)

lemma build_patient_labs_run_eq:
  "build_patient_labs_run obs m mx chunk_size =
     (case obs of
        None \<Rightarrow> Inr \<lparr>relationships = [], chunks_read = 0\<rparr>
      | Some rows \<Rightarrow>
          (case read_csv_chunks rows chunk_size of
             Inl e \<Rightarrow> Inl e
           | Inr chunks \<Rightarrow>
               Inr (labs_chunks_loop chunks m mx \<lparr>relationships = [], chunks_read = 0\<rparr>)))"
  by (simp add: build_patient_labs_run_def)

lemma build_patient_labs_eq:
  "build_patient_labs obs m mx chunk_size =
     (case obs of
        None \<Rightarrow> Inr []
      | Some rows \<Rightarrow>
          if chunk_size < 1 then Inl (ValueError ''chunksize'')
          else Inr (take (nat mx) (List.map_filter
             (\<lambda>row. map_option (\<lambda>s. map_patient_lab s row) (map_of m (PATIENT row))) rows)))"
proof (cases obs)
  case None
  then show ?thesis by (simp add: build_patient_labs_def build_patient_labs_run_def)
next
  case (Some rows)
  show ?thesis
  proof (cases "chunk_size < 1")
    case True
    with Some show ?thesis
      by (simp add: build_patient_labs_def build_patient_labs_run_def read_csv_chunks_def)
  next
    case False
    then obtain chunks where c: "read_csv_chunks rows chunk_size = Inr chunks"
      by (simp add: read_csv_chunks_def)
    from read_csv_chunks_concat[OF c] Some False c show ?thesis
      by (simp add: build_patient_labs_def build_patient_labs_run_def
          labs_chunks_loop_relationships)
  qed
qed

lemma map_filter_lookup_set:
  assumes "r \<in> set (List.map_filter (\<lambda>row. map_option (\<lambda>s. f s row) (map_of m (PATIENT row))) rows)"
  shows "\<exists>s row. r = f s row \<and> s \<in> snd ` set m \<and> row \<in> set rows"
proof -
  from assms obtain row where "row \<in> set rows"
      "map_option (\<lambda>s. f s row) (map_of m (PATIENT row)) = Some r"
    by (auto simp: List.map_filter_def)
  then obtain s where "map_of m (PATIENT row) = Some s" "r = f s row" by auto
  with \<open>row \<in> set rows\<close> show ?thesis using lookup_in_values by fast
qed

text \<open>
  C4. For every lookup table that \<open>transform_patients\<close> returns, every record that the
  three relationship builders emit carries the synthetic id of a Subject of the same
  run. Each builder emits, in stream order, one record per row whose source subject id
  is in the lookup table, and nothing for the other rows (the lab builder stops at its
  cap): referential integrity is full, not sampled.
\<close>

theorem relationships_reference_subjects:
  assumes "transform_patients pdf limit = (patients, id_mapping)"
  shows "(\<forall>r \<in> set (build_patient_conditions cdf id_mapping).
            patient_condition.patient_synthetic_id r \<in> synthetic_id ` set patients)
    \<and> (\<forall>r \<in> set (build_patient_medications mdf id_mapping).
            patient_medication.patient_synthetic_id r \<in> synthetic_id ` set patients)
    \<and> (\<forall>labs. build_patient_labs obs id_mapping max_records chunk_size = Inr labs
          \<longrightarrow> (\<forall>r \<in> set labs. patient_lab.patient_synthetic_id r \<in> synthetic_id ` set patients))
    \<and> build_patient_conditions cdf id_mapping = List.map_filter
          (\<lambda>row. map_option (\<lambda>s. map_patient_condition s row) (map_of id_mapping (PATIENT row)))
          (rows_of cdf)
    \<and> build_patient_medications mdf id_mapping = List.map_filter
          (\<lambda>row. map_option (\<lambda>s. map_patient_medication s row) (map_of id_mapping (PATIENT row)))
          (rows_of mdf)
    \<and> (\<forall>rows. obs = Some rows \<and> 1 \<le> chunk_size
          \<longrightarrow> build_patient_labs obs id_mapping max_records chunk_size
              = Inr (take (nat max_records) (List.map_filter
                  (\<lambda>row. map_option (\<lambda>s. map_patient_lab s row) (map_of id_mapping (PATIENT row)))
                  rows)))"
proof -
  note v = transform_patients_values[OF assms]
  have 1: "\<forall>r \<in> set (build_patient_conditions cdf id_mapping).
            patient_condition.patient_synthetic_id r \<in> synthetic_id ` set patients"
  proof
    fix r assume "r \<in> set (build_patient_conditions cdf id_mapping)"
    then obtain s row where "r = map_patient_condition s row" "s \<in> snd ` set id_mapping"
      unfolding build_patient_conditions_eq by (blast dest: map_filter_lookup_set)
    with v show "patient_condition.patient_synthetic_id r \<in> synthetic_id ` set patients"
      by (auto simp: map_patient_condition_def)
  qed
  have 2: "\<forall>r \<in> set (build_patient_medications mdf id_mapping).
            patient_medication.patient_synthetic_id r \<in> synthetic_id ` set patients"
  proof
    fix r assume "r \<in> set (build_patient_medications mdf id_mapping)"
    then obtain s row where "r = map_patient_medication s row" "s \<in> snd ` set id_mapping"
      unfolding build_patient_medications_eq by (blast dest: map_filter_lookup_set)
    with v show "patient_medication.patient_synthetic_id r \<in> synthetic_id ` set patients"
      by (auto simp: map_patient_medication_def)
  qed
  have 3: "\<forall>r \<in> set labs. patient_lab.patient_synthetic_id r \<in> synthetic_id ` set patients"
    if "build_patient_labs obs id_mapping max_records chunk_size = Inr labs" for labs
  proof
    fix r assume r: "r \<in> set labs"
    from that obtain rows where "labs = [] \<or> labs = take (nat max_records) (List.map_filter
        (\<lambda>row. map_option (\<lambda>s. map_patient_lab s row) (map_of id_mapping (PATIENT row))) rows)"
      unfolding build_patient_labs_eq by (auto split: option.splits if_splits)
    with r obtain rows where "r \<in> set (List.map_filter
        (\<lambda>row. map_option (\<lambda>s. map_patient_lab s row) (map_of id_mapping (PATIENT row))) rows)"
      by (auto dest: in_set_takeD)
    then obtain s row where "r = map_patient_lab s row" "s \<in> snd ` set id_mapping"
      by (blast dest: map_filter_lookup_set)
    with v show "patient_lab.patient_synthetic_id r \<in> synthetic_id ` set patients"
      by (auto simp: map_patient_lab_def Let_def split: prod.split)
  qed
  have 6: "build_patient_labs obs id_mapping max_records chunk_size
              = Inr (take (nat max_records) (List.map_filter
                  (\<lambda>row. map_option (\<lambda>s. map_patient_lab s row) (map_of id_mapping (PATIENT row)))
                  rows))" if "obs = Some rows" "1 \<le> chunk_size" for rows
    using that by (simp add: build_patient_labs_eq)
  show ?thesis
    using 1 2 3 6 build_patient_conditions_eq[of cdf id_mapping]
      build_patient_medications_eq[of mdf id_mapping]
    by blast
qed

theorem relationships_reference_subjects_witness:
  "map synthetic_id (fst (transform_patients (Frame [subject_row ''a'', subject_row ''b'']) 2))
     = [''SYN-00001'', ''SYN-00002'']
   \<and> map patient_condition.patient_synthetic_id
        (build_patient_conditions
           (Frame [event ''b'' ''C1'' ''Gout'', event ''z'' ''C2'' ''Asthma'', event ''a'' ''C1'' ''Gout''])
           (snd (transform_patients (Frame [subject_row ''a'', subject_row ''b'']) 2)))
     = [''SYN-00002'', ''SYN-00001'']
   \<and> map patient_medication.patient_synthetic_id
        (build_patient_medications
           (Frame [event ''z'' ''M1'' ''Aspirin 81 MG'', event ''a'' ''M1'' ''Aspirin 81 MG''])
           (snd (transform_patients (Frame [subject_row ''a'', subject_row ''b'']) 2)))
     = [''SYN-00001'']
   \<and> map_sum id (map patient_lab.patient_synthetic_id)
        (build_patient_labs
           (Some [event ''a'' ''L1'' ''Glucose'', event ''z'' ''L1'' ''Glucose'', event ''b'' ''L2'' ''Sodium''])
           (snd (transform_patients (Frame [subject_row ''a'', subject_row ''b'']) 2)) 5 2)
     = Inr [''SYN-00001'', ''SYN-00002'']"
proof -
  let ?pdf = "Frame [subject_row ''a'', subject_row ''b'']"
  have e: "transform_patients ?pdf 2
      = (fst (transform_patients ?pdf 2), snd (transform_patients ?pdf 2))"
    by simp
  have p: "map synthetic_id (fst (transform_patients ?pdf 2)) = [''SYN-00001'', ''SYN-00002'']"
    by code_simp
  have c: "map patient_condition.patient_synthetic_id
        (build_patient_conditions
           (Frame [event ''b'' ''C1'' ''Gout'', event ''z'' ''C2'' ''Asthma'', event ''a'' ''C1'' ''Gout''])
           (snd (transform_patients ?pdf 2)))
     = [''SYN-00002'', ''SYN-00001'']"
    by code_simp
  have m: "map patient_medication.patient_synthetic_id
        (build_patient_medications
           (Frame [event ''z'' ''M1'' ''Aspirin 81 MG'', event ''a'' ''M1'' ''Aspirin 81 MG''])
           (snd (transform_patients ?pdf 2)))
     = [''SYN-00001'']"
    by code_simp
  have l: "map_sum id (map patient_lab.patient_synthetic_id)
        (build_patient_labs
           (Some [event ''a'' ''L1'' ''Glucose'', event ''z'' ''L1'' ''Glucose'', event ''b'' ''L2'' ''Sodium''])
           (snd (transform_patients ?pdf 2)) 5 2)
     = Inr [''SYN-00001'', ''SYN-00002'']"
    by code_simp
  show ?thesis
    using relationships_reference_subjects[OF e,
        of "Frame [event ''b'' ''C1'' ''Gout'', event ''z'' ''C2'' ''Asthma'', event ''a'' ''C1'' ''Gout'']"
           "Frame [event ''z'' ''M1'' ''Aspirin 81 MG'', event ''a'' ''M1'' ''Aspirin 81 MG'']"
           "Some [event ''a'' ''L1'' ''Glucose'', event ''z'' ''L1'' ''Glucose'', event ''b'' ''L2'' ''Sodium'']"
           5 2] p c m l
    by simp
qed

section \<open>Properties of the lab relationship cap\<close>

lemma labs_chunks_loop_reads_mono:
  "chunks_read run \<le> chunks_read (labs_chunks_loop chunks m mx run)"
proof (induction chunks m mx run rule: labs_chunks_loop.induct)
  case (1 m mx run)
  then show ?case by simp
next
  case (2 chunk chunks m mx run)
  show ?case
  proof (cases "int (length (relationships run)) \<ge> mx")
    case True
    then show ?thesis by (simp add: Let_def)
  next
    case False
    with 2 have "chunks_read run + 1 \<le> chunks_read (labs_chunks_loop (chunk # chunks) m mx run)"
      by (simp add: Let_def)
    then show ?thesis by simp
  qed
qed

lemma labs_chunks_loop_reads_first:
  "chunks_read run + 1 \<le> chunks_read (labs_chunks_loop (chunk # chunks) m mx run)"
proof (cases "int (length (relationships run)) \<ge> mx")
  case True
  then show ?thesis by (simp add: Let_def)
next
  case False
  let ?run2 = "run\<lparr>chunks_read := chunks_read run + 1,
      relationships := labs_rows_loop chunk m mx (relationships run)\<rparr>"
  have "chunks_read ?run2 \<le> chunks_read (labs_chunks_loop chunks m mx ?run2)"
    by (rule labs_chunks_loop_reads_mono)
  with False show ?thesis by (simp add: Let_def)
qed

text \<open>
  C5 (as amended). For every observations stream and every cap \<open>N\<close>,
  \<open>build_patient_labs\<close> returns the records of the first \<open>N\<close> matching rows, so at
  most \<open>max N 0\<close> records however many rows match, and no row is mapped once the cap is
  reached. The reader is not left at once: when the cap is reached within the first
  \<open>k\<close> chunks, at most \<open>k + 1\<close> chunks are taken from the reader, the last of them
  taken by the \<open>for\<close> statement before its body tests the cap, and dropped unread. At
  least one chunk is taken in any case, and never more than the reader has.
\<close>

theorem lab_cap:
  assumes "read_csv_chunks rows chunk_size = Inr chunks"
    and "build_patient_labs_run (Some rows) id_mapping max_records chunk_size = Inr run"
  shows "build_patient_labs (Some rows) id_mapping max_records chunk_size = Inr (relationships run)
    \<and> length (relationships run) \<le> nat max_records
    \<and> relationships run = take (nat max_records) (List.map_filter
          (\<lambda>row. map_option (\<lambda>s. map_patient_lab s row) (map_of id_mapping (PATIENT row))) rows)
    \<and> 1 \<le> chunks_read run
    \<and> chunks_read run \<le> length chunks
    \<and> (\<forall>k. max_records \<le> int (length (List.map_filter
               (\<lambda>row. map_option (\<lambda>s. map_patient_lab s row) (map_of id_mapping (PATIENT row)))
               (concat (take k chunks))))
          \<longrightarrow> chunks_read run \<le> k + 1)"
proof -
  let ?init = "\<lparr>relationships = [], chunks_read = 0\<rparr>"
  from assms have run: "run = labs_chunks_loop chunks id_mapping max_records ?init"
    unfolding build_patient_labs_run_eq by simp
  from assms(1) obtain chunk rest where cons: "chunks = chunk # rest"
    by (auto simp: read_csv_chunks_def split: if_splits)
  have 1: "build_patient_labs (Some rows) id_mapping max_records chunk_size = Inr (relationships run)"
    using assms(2) by (simp add: build_patient_labs_def)
  have 3: "relationships run = take (nat max_records) (List.map_filter
          (\<lambda>row. map_option (\<lambda>s. map_patient_lab s row) (map_of id_mapping (PATIENT row))) rows)"
    unfolding run labs_chunks_loop_relationships
    by (simp add: read_csv_chunks_concat[OF assms(1)])
  have 2: "length (relationships run) \<le> nat max_records"
    unfolding 3 by simp
  have 4: "1 \<le> chunks_read run"
    unfolding run cons
    using labs_chunks_loop_reads_first[of ?init chunk rest id_mapping max_records] by simp
  have 5: "chunks_read run \<le> length chunks"
    unfolding run using labs_chunks_loop_reads_le[of chunks id_mapping max_records ?init] by simp
  have 6: "chunks_read run \<le> k + 1"
    if "max_records \<le> int (length (List.map_filter
               (\<lambda>row. map_option (\<lambda>s. map_patient_lab s row) (map_of id_mapping (PATIENT row)))
               (concat (take k chunks))))" for k
    unfolding run using labs_chunks_loop_reads[of max_records ?init id_mapping k chunks] that
    by simp
  show ?thesis using 1 2 3 4 5 6 by blast
qed

theorem lab_cap_witness:
  "read_csv_chunks
     [event ''a'' ''L1'' ''Glucose'', event ''a'' ''L2'' ''Sodium'', event ''a'' ''L3'' ''Urea''] 1
   = Inr [[event ''a'' ''L1'' ''Glucose''], [event ''a'' ''L2'' ''Sodium''],
          [event ''a'' ''L3'' ''Urea'']]
   \<and> build_patient_labs_run
     (Some [event ''a'' ''L1'' ''Glucose'', event ''a'' ''L2'' ''Sodium'', event ''a'' ''L3'' ''Urea''])
     [(''a'', ''SYN-00001'')] 1 1
   = Inr \<lparr>relationships = [map_patient_lab ''SYN-00001'' (event ''a'' ''L1'' ''Glucose'')],
          chunks_read = 2\<rparr>
   \<and> length (List.map_filter
        (\<lambda>row. map_option (\<lambda>s. map_patient_lab s row) (map_of [(''a'', ''SYN-00001'')] (PATIENT row)))
        (concat (take 1 [[event ''a'' ''L1'' ''Glucose''], [event ''a'' ''L2'' ''Sodium''],
          [event ''a'' ''L3'' ''Urea'']]))) = 1
   \<and> read_csv_chunks ([] :: event_row list) 2 = Inr [[]]
   \<and> build_patient_labs_run (Some []) [(''a'', ''SYN-00001'')] 5 2
   = Inr \<lparr>relationships = [], chunks_read = 1\<rparr>"
proof -
  let ?rows = "[event ''a'' ''L1'' ''Glucose'', event ''a'' ''L2'' ''Sodium'', event ''a'' ''L3'' ''Urea'']"
  let ?chunks = "[[event ''a'' ''L1'' ''Glucose''], [event ''a'' ''L2'' ''Sodium''],
          [event ''a'' ''L3'' ''Urea'']]"
  let ?run = "\<lparr>relationships = [map_patient_lab ''SYN-00001'' (event ''a'' ''L1'' ''Glucose'')],
          chunks_read = 2\<rparr>"
  have c: "read_csv_chunks ?rows 1 = Inr ?chunks"
    by code_simp
  have r: "build_patient_labs_run (Some ?rows) [(''a'', ''SYN-00001'')] 1 1 = Inr ?run"
    by code_simp
  have k: "length (List.map_filter
        (\<lambda>row. map_option (\<lambda>s. map_patient_lab s row) (map_of [(''a'', ''SYN-00001'')] (PATIENT row)))
        (concat (take 1 ?chunks))) = 1"
    by code_simp
  have c0: "read_csv_chunks ([] :: event_row list) 2 = Inr [[]]"
    by code_simp
  have r0: "build_patient_labs_run (Some []) [(''a'', ''SYN-00001'')] 5 2
      = Inr \<lparr>relationships = [], chunks_read = 1\<rparr>"
    by code_simp
  show ?thesis using lab_cap[OF c r] lab_cap[OF c0 r0] c r k c0 r0
    by - (intro conjI; assumption)
qed

text \<open>
  C5 as stated fails on the reads: with three matching rows in chunks of one row and a
  cap of 1, the cap is reached within the first chunk, and two chunks have been taken
  from the reader when the function returns.
\<close>

theorem lab_cap_counterexample:
  "read_csv_chunks
     [event ''a'' ''L1'' ''Glucose'', event ''a'' ''L2'' ''Sodium'', event ''a'' ''L3'' ''Urea''] 1
   = Inr [[event ''a'' ''L1'' ''Glucose''], [event ''a'' ''L2'' ''Sodium''],
          [event ''a'' ''L3'' ''Urea'']]
   \<and> length (List.map_filter
        (\<lambda>row. map_option (\<lambda>s. map_patient_lab s row) (map_of [(''a'', ''SYN-00001'')] (PATIENT row)))
        (concat (take 1 [[event ''a'' ''L1'' ''Glucose''], [event ''a'' ''L2'' ''Sodium''],
          [event ''a'' ''L3'' ''Urea'']]))) = 1
   \<and> (case build_patient_labs_run
      (Some [event ''a'' ''L1'' ''Glucose'', event ''a'' ''L2'' ''Sodium'', event ''a'' ''L3'' ''Urea''])
      [(''a'', ''SYN-00001'')] 1 1 of
      Inl e \<Rightarrow> False
    | Inr run \<Rightarrow> length (relationships run) = 1 \<and> chunks_read run = 2)"
  by code_simp

section \<open>Properties of the code catalog\<close>

lemma drop_duplicates_seen_cong:
  "set seen = set seen' \<Longrightarrow> drop_duplicates_seen key seen rows = drop_duplicates_seen key seen' rows"
proof (induction rows arbitrary: seen seen')
  case Nil
  then show ?case by simp
next
  case (Cons row rows)
  from Cons.prems have "set (key row # seen) = set (key row # seen')" by simp
  then have "drop_duplicates_seen key (key row # seen) rows
      = drop_duplicates_seen key (key row # seen') rows"
    by (rule Cons.IH)
  moreover have "drop_duplicates_seen key seen rows = drop_duplicates_seen key seen' rows"
    using Cons.prems by (rule Cons.IH)
  ultimately show ?case using Cons.prems by simp
qed

lemma drop_duplicates_seen_first:
  "filter (\<lambda>r. key r = c) (drop_duplicates_seen key seen rows) =
     (if c \<in> set seen then []
      else case find (\<lambda>r. key r = c) rows of None \<Rightarrow> [] | Some r \<Rightarrow> [r])"
  by (induction rows arbitrary: seen) auto

lemma drop_duplicates_first:
  "filter (\<lambda>r. key r = c) (drop_duplicates key rows) =
     (case find (\<lambda>r. key r = c) rows of None \<Rightarrow> [] | Some r \<Rightarrow> [r])"
  by (simp add: drop_duplicates_def drop_duplicates_seen_first)

lemma drop_duplicates_seen_twice:
  "set seen0 \<subseteq> set seen \<Longrightarrow>
   drop_duplicates_seen key seen (drop_duplicates_seen key seen0 rows)
     = drop_duplicates_seen key seen rows"
proof (induction rows arbitrary: seen seen0)
  case Nil
  then show ?case by simp
next
  case (Cons row rows)
  show ?case
  proof (cases "key row \<in> set seen0")
    case True
    with Cons show ?thesis by auto
  next
    case False
    have a: "set (key row # seen0) \<subseteq> set seen" if "key row \<in> set seen"
      using that Cons.prems by auto
    have b: "set (key row # seen0) \<subseteq> set (key row # seen)"
      using Cons.prems by auto
    show ?thesis
      using False Cons.IH[OF a] Cons.IH[OF b] by simp
  qed
qed

lemma drop_duplicates_seen_append:
  "set seen' = set seen \<union> key ` set (drop_duplicates_seen key seen xs) \<Longrightarrow>
   drop_duplicates_seen key seen (xs @ ys)
     = drop_duplicates_seen key seen xs @ drop_duplicates_seen key seen' ys"
proof (induction xs arbitrary: seen)
  case Nil
  then show ?case by (simp add: drop_duplicates_seen_cong[of seen' seen])
next
  case (Cons x xs)
  show ?case
  proof (cases "key x \<in> set seen")
    case True
    with Cons show ?thesis by simp
  next
    case False
    have "set seen' = set (key x # seen) \<union> key ` set (drop_duplicates_seen key (key x # seen) xs)"
      using Cons.prems False by auto
    from Cons.IH[OF this] False show ?thesis by simp
  qed
qed

lemma update_new_key: "map_of al k = None \<Longrightarrow> AList.update k v al = al @ [(k, v)]"
  by (induction al) (auto split: if_splits)

lemma lab_codes_rows_eq:
  "lab_codes_rows rows u =
     u @ map (\<lambda>r. (CODE r, map_lab_code r)) (drop_duplicates_seen CODE (map fst u) rows)"
proof (induction rows u rule: lab_codes_rows.induct)
  case (1 u)
  then show ?case by simp
next
  case (2 row rows u)
  show ?case
  proof (cases "map_of u (CODE row)")
    case None
    then have new: "CODE row \<notin> set (map fst u)"
      by (simp add: map_of_eq_None_iff)
    have "drop_duplicates_seen CODE (map fst (u @ [(CODE row, map_lab_code row)])) rows
        = drop_duplicates_seen CODE (CODE row # map fst u) rows"
      by (rule drop_duplicates_seen_cong) auto
    with None new 2(1) show ?thesis by (simp add: update_new_key)
  next
    case (Some e)
    then have "CODE row \<in> set (map fst u)"
      by (metis map_of_eq_None_iff option.distinct(1) list.set_map)
    with Some 2(2) show ?thesis by simp
  qed
qed

lemma lab_codes_chunks_eq:
  "lab_codes_chunks chunks ids u =
     u @ map (\<lambda>r. (CODE r, map_lab_code r))
           (drop_duplicates_seen CODE (map fst u)
              (filter (\<lambda>row. PATIENT row \<in> ids) (concat chunks)))"
proof (induction chunks ids u rule: lab_codes_chunks.induct)
  case (1 ids u)
  then show ?case by simp
next
  case (2 chunk chunks ids u)
  let ?g = "\<lambda>r. (CODE r, map_lab_code r)"
  let ?F = "filter (\<lambda>row. PATIENT row \<in> ids)"
  let ?seen = "map fst u"
  let ?u1 = "u @ map ?g (drop_duplicates_seen CODE ?seen (?F chunk))"
  have rows: "lab_codes_rows (drop_duplicates CODE (?F chunk)) u = ?u1"
    unfolding lab_codes_rows_eq drop_duplicates_def
    by (simp add: drop_duplicates_seen_twice)
  have step: "lab_codes_chunks (chunk # chunks) ids u
      = ?u1 @ map ?g (drop_duplicates_seen CODE (map fst ?u1) (?F (concat chunks)))"
    using 2 rows by (simp add: Let_def)
  have "set (map fst ?u1) = set ?seen \<union> CODE ` set (drop_duplicates_seen CODE ?seen (?F chunk))"
    by (simp add: comp_def)
  then have app: "drop_duplicates_seen CODE ?seen (?F chunk @ ?F (concat chunks))
      = drop_duplicates_seen CODE ?seen (?F chunk)
        @ drop_duplicates_seen CODE (map fst ?u1) (?F (concat chunks))"
    by (rule drop_duplicates_seen_append)
  have "lab_codes_chunks (chunk # chunks) ids u
      = u @ map ?g (drop_duplicates_seen CODE ?seen (?F chunk)
                     @ drop_duplicates_seen CODE (map fst ?u1) (?F (concat chunks)))"
    unfolding step by (simp only: map_append append_assoc)
  also have "\<dots> = u @ map ?g (drop_duplicates_seen CODE ?seen (?F chunk @ ?F (concat chunks)))"
    by (simp only: app)
  also have "?F chunk @ ?F (concat chunks) = ?F (concat (chunk # chunks))" by simp
  finally show ?case .
qed

lemma extract_lab_codes_eq:
  assumes "1 \<le> chunk_size"
  shows "extract_lab_codes (Some rows) ids chunk_size =
     Inr (map map_lab_code (drop_duplicates CODE (filter (\<lambda>row. PATIENT row \<in> ids) rows)))"
proof -
  from assms obtain chunks where c: "read_csv_chunks rows chunk_size = Inr chunks"
    by (simp add: read_csv_chunks_def)
  from read_csv_chunks_concat[OF c] c show ?thesis
    by (simp add: extract_lab_codes_def lab_codes_chunks_eq drop_duplicates_def comp_def)
qed

lemma catalog_entries_first:
  assumes "\<And>r. entry_code (f r) = CODE r"
  shows "filter (\<lambda>e. entry_code e = c) (map f (drop_duplicates CODE rows)) =
     (case find (\<lambda>r. CODE r = c) rows of None \<Rightarrow> [] | Some r \<Rightarrow> [f r])"
proof -
  have "filter (\<lambda>e. entry_code e = c) (map f (drop_duplicates CODE rows))
      = map f (filter (\<lambda>r. CODE r = c) (drop_duplicates CODE rows))"
    by (simp add: filter_map comp_def assms)
  then show ?thesis unfolding drop_duplicates_first by (simp split: option.split)
qed

text \<open>
  C3. For every event stream and cohort id set, each code-catalog extraction
  (conditions, medications, chunked labs) filters the stream to the rows whose subject
  reference is in the cohort id set and then keeps the first row of each code: for every
  code, the catalog holds exactly one entry when some filtered row bears the code, none
  otherwise, and that entry is computed from the first filtered row bearing it. For the
  labs this holds for the whole stream whatever the chunk size, that is, across chunk
  boundaries.
\<close>

theorem catalog_first_occurrence:
  "(let F = filter (\<lambda>row. PATIENT row \<in> ids) rows in
      extract_condition_codes h (Frame rows) ids
        = Inr (map (map_condition_code h) (drop_duplicates CODE F))
    \<and> extract_medication_codes (Frame rows) ids
        = Inr (map map_medication_code (drop_duplicates CODE F))
    \<and> (1 \<le> chunk_size \<longrightarrow> extract_lab_codes (Some rows) ids chunk_size
        = Inr (map map_lab_code (drop_duplicates CODE F)))
    \<and> (\<forall>c. filter (\<lambda>e. condition_code.code e = c) (map (map_condition_code h) (drop_duplicates CODE F))
          = (case find (\<lambda>r. CODE r = c) F of None \<Rightarrow> [] | Some r \<Rightarrow> [map_condition_code h r]))
    \<and> (\<forall>c. filter (\<lambda>e. medication_code.code e = c) (map map_medication_code (drop_duplicates CODE F))
          = (case find (\<lambda>r. CODE r = c) F of None \<Rightarrow> [] | Some r \<Rightarrow> [map_medication_code r]))
    \<and> (\<forall>c. filter (\<lambda>e. lab_code.code e = c) (map map_lab_code (drop_duplicates CODE F))
          = (case find (\<lambda>r. CODE r = c) F of None \<Rightarrow> [] | Some r \<Rightarrow> [map_lab_code r])))
   \<and> map snd (lab_codes_chunks chunks ids [])
        = map map_lab_code (drop_duplicates CODE
            (filter (\<lambda>row. PATIENT row \<in> ids) (concat chunks)))"
proof -
  let ?F = "filter (\<lambda>row. PATIENT row \<in> ids) rows"
  have 1: "extract_condition_codes h (Frame rows) ids
        = Inr (map (map_condition_code h) (drop_duplicates CODE ?F))"
    by (simp add: extract_condition_codes_def)
  have 2: "extract_medication_codes (Frame rows) ids
        = Inr (map map_medication_code (drop_duplicates CODE ?F))"
    by (simp add: extract_medication_codes_def)
  have 3: "1 \<le> chunk_size \<longrightarrow> extract_lab_codes (Some rows) ids chunk_size
        = Inr (map map_lab_code (drop_duplicates CODE ?F))"
    by (simp add: extract_lab_codes_eq)
  have 4: "filter (\<lambda>e. condition_code.code e = c) (map (map_condition_code h) (drop_duplicates CODE ?F))
          = (case find (\<lambda>r. CODE r = c) ?F of None \<Rightarrow> [] | Some r \<Rightarrow> [map_condition_code h r])" for c
    by (rule catalog_entries_first) (simp add: map_condition_code_def Let_def)
  have 5: "filter (\<lambda>e. medication_code.code e = c) (map map_medication_code (drop_duplicates CODE ?F))
          = (case find (\<lambda>r. CODE r = c) ?F of None \<Rightarrow> [] | Some r \<Rightarrow> [map_medication_code r])" for c
    by (rule catalog_entries_first) (simp add: map_medication_code_def Let_def)
  have 6: "filter (\<lambda>e. lab_code.code e = c) (map map_lab_code (drop_duplicates CODE ?F))
          = (case find (\<lambda>r. CODE r = c) ?F of None \<Rightarrow> [] | Some r \<Rightarrow> [map_lab_code r])" for c
    by (rule catalog_entries_first) (simp add: map_lab_code_def Let_def)
  have 7: "map snd (lab_codes_chunks chunks ids [])
        = map map_lab_code (drop_duplicates CODE
            (filter (\<lambda>row. PATIENT row \<in> ids) (concat chunks)))"
    by (simp add: lab_codes_chunks_eq drop_duplicates_def comp_def)
  show ?thesis unfolding Let_def using 1 2 3 4 5 6 7 by blast
qed

theorem catalog_first_occurrence_witness:
  "map_sum id (map (\<lambda>e. (lab_code.code e, lab_code.name e)))
     (extract_lab_codes
        (Some [event ''a'' ''L1'' ''Glucose'', event ''z'' ''L9'' ''Urea'',
               event ''b'' ''L1'' ''Glucose in Blood'', event ''b'' ''L2'' ''Sodium''])
        (set [''a'', ''b'']) 1)
     = Inr [(''L1'', ''Glucose''), (''L2'', ''Sodium'')]
   \<and> chunks_of (nat 1)
        [event ''a'' ''L1'' ''Glucose'', event ''z'' ''L9'' ''Urea'',
         event ''b'' ''L1'' ''Glucose in Blood'', event ''b'' ''L2'' ''Sodium'']
     = [[event ''a'' ''L1'' ''Glucose''], [event ''z'' ''L9'' ''Urea''],
        [event ''b'' ''L1'' ''Glucose in Blood''], [event ''b'' ''L2'' ''Sodium'']]
   \<and> map (\<lambda>e. (condition_code.code e, condition_code.name e))
        (map (map_condition_code (\<lambda>s. 0)) (drop_duplicates CODE
          (filter (\<lambda>row. PATIENT row \<in> set [''a'', ''b''])
            [event ''a'' ''L1'' ''Glucose'', event ''z'' ''L9'' ''Urea'',
             event ''b'' ''L1'' ''Glucose in Blood'', event ''b'' ''L2'' ''Sodium''])))
     = [(''L1'', ''Glucose''), (''L2'', ''Sodium'')]"
proof -
  let ?rows = "[event ''a'' ''L1'' ''Glucose'', event ''z'' ''L9'' ''Urea'',
               event ''b'' ''L1'' ''Glucose in Blood'', event ''b'' ''L2'' ''Sodium'']"
  have cs: "(1::int) \<le> 1" by simp
  have l: "map_sum id (map (\<lambda>e. (lab_code.code e, lab_code.name e)))
     (extract_lab_codes (Some ?rows) (set [''a'', ''b'']) 1)
     = Inr [(''L1'', ''Glucose''), (''L2'', ''Sodium'')]"
    by code_simp
  have c: "chunks_of (nat 1) ?rows
     = [[event ''a'' ''L1'' ''Glucose''], [event ''z'' ''L9'' ''Urea''],
        [event ''b'' ''L1'' ''Glucose in Blood''], [event ''b'' ''L2'' ''Sodium'']]"
    by code_simp
  have d: "map (\<lambda>e. (condition_code.code e, condition_code.name e))
        (map (map_condition_code (\<lambda>s. 0)) (drop_duplicates CODE
          (filter (\<lambda>row. PATIENT row \<in> set [''a'', ''b'']) ?rows)))
     = [(''L1'', ''Glucose''), (''L2'', ''Sodium'')]"
    by code_simp
  show ?thesis
    using catalog_first_occurrence[of "set [''a'', ''b'']" ?rows "\<lambda>s. 0" 1 "[]"] cs l c d
    by simp
qed

end
